theory Spec2Isabelle
  imports Main "HOL-Library.Product_Lexorder"
begin

section \<open>Calendar values of the standard library, as app.py uses them\<close>

text \<open>
  A \<open>date\<close> is (year, month, day), a \<open>time\<close> is (hour, minute, second, microsecond) and
  a naive \<open>datetime\<close> is the pair of both. Python compares two naive datetimes by comparing
  these seven components lexicographically, which is the order of the product type
  (HOL-Library.Product_Lexorder), so \<open>\<le>\<close> and \<open><\<close> below are Python's comparisons.
\<close>

type_synonym date = "nat \<times> nat \<times> nat"
type_synonym time = "nat \<times> nat \<times> nat \<times> nat"
type_synonym datetime = "date \<times> time"

datatype error =
    PartnerNotFound          \<comment> \<open>\<open>get_or_404\<close> aborts with 404\<close>
  | NoAccount                \<comment> \<open>"Kein Konto fuer diesen Partner vorhanden."\<close>
  | InvalidDate              \<comment> \<open>"Fehler! Datum ist ungueltig."\<close>
  | ClosureLocked            \<comment> \<open>"Fehler! Monat ist bereits abgeschlossen. ..."\<close>
  | InvalidQuantity          \<comment> \<open>"Fehler! Menge ist ungueltig."\<close>
  | InvalidDirection         \<comment> \<open>"Fehler! Ungueltige Richtung."\<close>
  | MissingReferenceNumber   \<comment> \<open>"Fehler! Bei Ausgang muss im Kommentar eine Nummer ... stehen."\<close>
  | MissingBelegnummer       \<comment> \<open>"Fehler! Belegnummer fehlt."\<close>
  | MissingKommentar         \<comment> \<open>"Fehler! Kommentar fehlt."\<close>
  | OriginalEntryNotFound    \<comment> \<open>"Fehler! Belegnummer ... nicht gefunden."\<close>
  | DuplicateClosure         \<comment> \<open>"Monat ist bereits abgeschlossen."\<close>
  | ValueError               \<comment> \<open>uncaught \<open>ValueError\<close> of \<open>date(...)\<close> / \<open>datetime(...)\<close>\<close>
  | OverflowError            \<comment> \<open>uncaught \<open>OverflowError\<close> of \<open>date(...)\<close> and of datetime arithmetic\<close>
  | TypeError                \<comment> \<open>uncaught \<open>TypeError\<close> of comparing \<open>None\<close> with a datetime\<close>

definition datetime_min :: datetime where
  "datetime_min = ((1, 1, 1), (0, 0, 0, 0))"

definition is_leap :: "nat \<Rightarrow> bool" where
  "is_leap y = (y mod 4 = 0 \<and> (y mod 100 \<noteq> 0 \<or> y mod 400 = 0))"

definition days_in_month :: "nat \<Rightarrow> nat \<Rightarrow> nat" where
  "days_in_month y m =
     (if m = 2 then (if is_leap y then 29 else 28)
      else if m = 4 \<or> m = 6 \<or> m = 9 \<or> m = 11 then 30 else 31)"

definition valid_date :: "date \<Rightarrow> bool" where
  "valid_date d = (case d of (y, m, dd) \<Rightarrow>
     1 \<le> y \<and> y \<le> 9999 \<and> 1 \<le> m \<and> m \<le> 12 \<and> 1 \<le> dd \<and> dd \<le> days_in_month y m)"

definition valid_time :: "time \<Rightarrow> bool" where
  "valid_time t = (case t of (h, mi, s, us) \<Rightarrow> h < 24 \<and> mi < 60 \<and> s < 60 \<and> us < 1000000)"

definition valid_datetime :: "datetime \<Rightarrow> bool" where
  "valid_datetime dt = (valid_date (fst dt) \<and> valid_time (snd dt))"

text \<open>
  \<open>date(year, month, day)\<close>: the constructor takes its arguments as C integers and raises
  \<open>OverflowError\<close> for one that does not fit; for arguments outside the calendar it raises
  \<open>ValueError\<close>.
\<close>

definition c_int :: "int \<Rightarrow> bool" where
  "c_int n = (- (2 ^ 31) \<le> n \<and> n < 2 ^ 31)"

definition mk_date :: "int \<Rightarrow> int \<Rightarrow> int \<Rightarrow> error + date" where
  "mk_date y m d =
     (if \<not> (c_int y \<and> c_int m \<and> c_int d) then Inl OverflowError
      else if 1 \<le> y \<and> y \<le> 9999 \<and> 1 \<le> m \<and> m \<le> 12 \<and> 1 \<le> d
         \<and> d \<le> int (days_in_month (nat y) (nat m))
      then Inr (nat y, nat m, nat d) else Inl ValueError)"

text \<open>\<open>datetime(year, month, day)\<close>: midnight of that date.\<close>

definition mk_datetime :: "int \<Rightarrow> int \<Rightarrow> int \<Rightarrow> error + datetime" where
  "mk_datetime y m d =
     (case mk_date y m d of Inl e \<Rightarrow> Inl e | Inr dd \<Rightarrow> Inr (dd, (0, 0, 0, 0)))"

text \<open>\<open>datetime.combine(user_date, current_time)\<close>.\<close>

definition combine :: "date \<Rightarrow> time \<Rightarrow> datetime" where
  "combine d t = (d, t)"

text \<open>
  \<open>dt - timedelta(seconds=1)\<close>: one second back on the proleptic Gregorian calendar, the
  microsecond kept; below \<open>datetime.min\<close> the library raises \<open>OverflowError\<close>.
\<close>

definition prev_day :: "date \<Rightarrow> error + date" where
  "prev_day d = (case d of (y, m, dd) \<Rightarrow>
     if 1 < dd then Inr (y, m, dd - 1)
     else if 1 < m then Inr (y, m - 1, days_in_month y (m - 1))
     else if 1 < y then Inr (y - 1, 12, 31)
     else Inl OverflowError)"

definition minus_second :: "datetime \<Rightarrow> error + datetime" where
  "minus_second dt = (case dt of (d, (h, mi, s, us)) \<Rightarrow>
     if 0 < s then Inr (d, (h, mi, s - 1, us))
     else if 0 < mi then Inr (d, (h, mi - 1, 59, us))
     else if 0 < h then Inr (d, (h - 1, 59, 59, us))
     else (case prev_day d of Inl e \<Rightarrow> Inl e | Inr d' \<Rightarrow> Inr (d', (23, 59, 59, us))))"

subsection \<open>Decimal formatting\<close>

definition digit_char :: "nat \<Rightarrow> char" where
  "digit_char n = ''0123456789'' ! (n mod 10)"

fun digits :: "nat \<Rightarrow> string" where
  "digits n = (if n < 10 then [digit_char n] else digits (n div 10) @ [digit_char n])"

declare digits.simps [simp del]

text \<open>The format specification \<open>:0wd\<close>: decimal, zero-padded to at least \<open>w\<close> characters.\<close>

definition zfill :: "nat \<Rightarrow> nat \<Rightarrow> string" where
  "zfill w n = replicate (w - length (digits n)) (CHR ''0'') @ digits n"

text \<open>
  \<open>strftime("%Y%m%d")\<close>: the year with century, month and day as two digits each. The C
  library prints the year without padding, so a year below 1000 has fewer than four digits.
\<close>

definition strftime_Ymd :: "datetime \<Rightarrow> string" where
  "strftime_Ymd dt = (case fst dt of (y, m, d) \<Rightarrow> digits y @ zfill 2 m @ zfill 2 d)"

subsection \<open>String helpers\<close>

definition is_digit :: "char \<Rightarrow> bool" where
  "is_digit c = (c \<in> set ''0123456789'')"

text \<open>
  \<open>re.search(r"\\d{4,}", s)\<close> finds a match iff at some position of \<open>s\<close> at least four
  digits follow each other.
\<close>

fun re_search_d4 :: "string \<Rightarrow> bool" where
  "re_search_d4 [] = False"
| "re_search_d4 (c # cs) = (4 \<le> length (takeWhile is_digit (c # cs)) \<or> re_search_d4 cs)"

definition upper_char :: "char \<Rightarrow> char" where
  "upper_char c =
     (case map_of (zip ''abcdefghijklmnopqrstuvwxyz'' ''ABCDEFGHIJKLMNOPQRSTUVWXYZ'') c of
        None \<Rightarrow> c | Some u \<Rightarrow> u)"

definition upper :: "string \<Rightarrow> string" where
  "upper s = map upper_char s"

section \<open>The tables (Partner, Account, Entry, MonthClosure)\<close>

text \<open>
  A nullable column is an \<open>option\<close>. Field names follow the columns, with a prefix where
  two tables share a column name. \<open>konto_seq\<close> has the column default 0 and is set by both
  write paths, so it is an \<open>int\<close>; quantities are the Integer columns, and the balances of
  a closure (a Numeric column that \<open>close_month\<close> fills with the integers it computes) are
  integers too.
\<close>

record partner =
  p_id :: nat
  p_name :: string

record account =
  a_id :: nat
  a_partner_id :: "nat option"

record entry =
  e_id :: nat
  belegnummer :: "string option"
  datum :: "datetime option"
  richtung :: "string option"
  menge_eup :: "int option"
  menge_gb :: "int option"
  menge_tmb1 :: "int option"
  menge_tmb2 :: "int option"
  kommentar :: "string option"
  konto_seq :: int
  erfasst_von :: "string option"
  account_id :: "nat option"

record month_closure =
  mc_id :: nat
  mc_partner_id :: nat
  mc_year :: int
  mc_month :: int
  saldo_eup :: "int option"
  saldo_gb :: "int option"
  saldo_tmb1 :: "int option"
  saldo_tmb2 :: "int option"
  period_end :: datetime
  created_at :: "datetime option"

record db =
  partners :: "partner list"
  accounts :: "account list"
  entries :: "entry list"
  closures :: "month_closure list"

text \<open>The primary key the store gives a new row: one more than the largest in the table.\<close>

definition next_id :: "nat list \<Rightarrow> nat" where
  "next_id ids = Suc (foldr max ids 0)"

text \<open>
  \<open>query.order_by(key.desc()).first()\<close>: a row with the largest key, none for an empty
  result. Among rows with equal keys SQL leaves the choice open; the model takes the
  earliest row of the table.
\<close>

fun first_desc :: "('a \<Rightarrow> 'k::linorder) \<Rightarrow> 'a list \<Rightarrow> 'a option" where
  "first_desc key [] = None"
| "first_desc key (x # xs) =
     (case first_desc key xs of
        None \<Rightarrow> Some x
      | Some y \<Rightarrow> if key x < key y then Some y else Some x)"

definition get_partner :: "db \<Rightarrow> nat \<Rightarrow> partner option" where
  "get_partner s pid = find (\<lambda>p. p_id p = pid) (partners s)"

definition partner_accounts :: "db \<Rightarrow> nat \<Rightarrow> account list" where
  "partner_accounts s pid = filter (\<lambda>a. a_partner_id a = Some pid) (accounts s)"

definition account_entries :: "db \<Rightarrow> account \<Rightarrow> entry list" where
  "account_entries s a = filter (\<lambda>e. account_id e = Some (a_id a)) (entries s)"

definition partner_closures :: "db \<Rightarrow> nat \<Rightarrow> month_closure list" where
  "partner_closures s pid = filter (\<lambda>c. mc_partner_id c = pid) (closures s)"

section \<open>Helper functions of app.py\<close>

definition month_range :: "date \<Rightarrow> error + (datetime \<times> datetime)" where
  "month_range dt_date = (case dt_date of (y, m, d) \<Rightarrow>
     (case mk_datetime (int y) (int m) 1 of
        Inl e \<Rightarrow> Inl e
      | Inr start \<Rightarrow>
          (case (if m = 12 then mk_datetime (int y + 1) 1 1
                 else mk_datetime (int y) (int m + 1) 1) of
             Inl e \<Rightarrow> Inl e
           | Inr next_m \<Rightarrow>
               (case minus_second next_m of
                  Inl e \<Rightarrow> Inl e
                | Inr end \<Rightarrow> Inr (start, end)))))"

definition get_last_closure_before :: "db \<Rightarrow> nat \<Rightarrow> datetime \<Rightarrow> month_closure option" where
  "get_last_closure_before s partner_id dt =
     first_desc period_end (filter (\<lambda>c. period_end c < dt) (partner_closures s partner_id))"

definition collect_partner_entries :: "db \<Rightarrow> nat \<Rightarrow> entry list" where
  "collect_partner_entries s pid = concat (map (account_entries s) (partner_accounts s pid))"


section \<open>The Balance Calculator: \<open>calculate_saldo_and_sums\<close>\<close>

subsection \<open>Floats\<close>

text \<open>
  The balance arithmetic runs on Python floats (doubles): \<open>float(...)\<close> of an Integer or
  Numeric column, products with the multipliers 1 and -1, and sums. Each of these values is
  an integer, and a float is represented by the integer it denotes. \<open>float(n)\<close> and every
  float operation give the double nearest to the exact result, a tie going to the even
  significand: \<open>fl\<close> is this rounding to 53 significant bits. (Doubles end below \<open>2 ^ 1024\<close>,
  far beyond every integer column; that end is not part of the model. The two zeros of the
  doubles are one value here.)
\<close>

fun bit_length :: "nat \<Rightarrow> nat" where
  "bit_length n = (if n = 0 then 0 else Suc (bit_length (n div 2)))"

declare bit_length.simps [simp del]

definition round_nat :: "nat \<Rightarrow> nat" where
  "round_nat n =
     (let k = bit_length n - 53; q = n div 2 ^ k; r = n mod 2 ^ k
      in if 2 * r < 2 ^ k \<or> (2 * r = 2 ^ k \<and> even q) then q * 2 ^ k else (q + 1) * 2 ^ k)"

definition fl :: "int \<Rightarrow> int" where
  "fl x = (if x < 0 then - int (round_nat (nat (- x))) else int (round_nat (nat x)))"

text \<open>\<open>a + b\<close> and \<open>a * b\<close> on floats.\<close>

definition fadd :: "int \<Rightarrow> int \<Rightarrow> int" where
  "fadd a b = fl (a + b)"

definition fmul :: "int \<Rightarrow> int \<Rightarrow> int" where
  "fmul a b = fl (a * b)"

subsection \<open>The calculation\<close>

text \<open>The dictionaries with the keys "eup", "gb", "tmb1", "tmb2".\<close>

record quad =
  eup :: int
  gb :: int
  tmb1 :: int
  tmb2 :: int

definition quad0 :: quad where
  "quad0 = \<lparr>eup = 0, gb = 0, tmb1 = 0, tmb2 = 0\<rparr>"

definition or0 :: "int option \<Rightarrow> int" where
  "or0 v = (case v of None \<Rightarrow> 0 | Some n \<Rightarrow> n)"

text \<open>The sign of an entry, the \<open>if\<close>/\<open>elif\<close> chain on \<open>e.richtung\<close>.\<close>

definition mult_of :: "entry \<Rightarrow> int" where
  "mult_of e =
     (if richtung e = Some ''Eingang'' then 1
      else if richtung e = Some ''Ausgang'' then - 1
      else if richtung e = Some ''Korrektur'' then 1
      else 1)"

text \<open>\<open>me_eup\<close>, \<open>me_gb\<close>, \<open>me_tmb1\<close>, \<open>me_tmb2\<close> of an entry: \<open>float(e.menge_k or 0)\<close>.\<close>

definition me_of :: "entry \<Rightarrow> quad" where
  "me_of e = \<lparr>eup = fl (or0 (menge_eup e)), gb = fl (or0 (menge_gb e)),
              tmb1 = fl (or0 (menge_tmb1 e)), tmb2 = fl (or0 (menge_tmb2 e))\<rparr>"

text \<open>\<open>d[k] += me_k * mult\<close> for the four keys.\<close>

definition add_scaled :: "quad \<Rightarrow> quad \<Rightarrow> int \<Rightarrow> quad" where
  "add_scaled d me mult =
     \<lparr>eup = fadd (eup d) (fmul (eup me) mult), gb = fadd (gb d) (fmul (gb me) mult),
      tmb1 = fadd (tmb1 d) (fmul (tmb1 me) mult), tmb2 = fadd (tmb2 d) (fmul (tmb2 me) mult)\<rparr>"

text \<open>\<open>d[k] += me_k\<close>, and \<open>a[k] + b[k]\<close>, for the four keys.\<close>

definition add_quad :: "quad \<Rightarrow> quad \<Rightarrow> quad" where
  "add_quad d me =
     \<lparr>eup = fadd (eup d) (eup me), gb = fadd (gb d) (gb me),
      tmb1 = fadd (tmb1 d) (tmb1 me), tmb2 = fadd (tmb2 d) (tmb2 me)\<rparr>"

record loop_vars =
  saldo_start :: quad
  movement :: quad
  sums_eingang :: quad
  sums_ausgang :: quad
  entries_in_period :: "entry list"

text \<open>The body of \<open>for e in all_entries\<close>.\<close>

definition loop_body :: "datetime \<Rightarrow> datetime \<Rightarrow> datetime \<Rightarrow> loop_vars \<Rightarrow> entry \<Rightarrow> loop_vars" where
  "loop_body base_date start_date end_date v e =
     (case datum e of
        None \<Rightarrow> v
      | Some d \<Rightarrow>
          if d \<le> base_date then v
          else if base_date < d \<and> d < start_date then
            v\<lparr>saldo_start := add_scaled (saldo_start v) (me_of e) (mult_of e)\<rparr>
          else if start_date \<le> d \<and> d \<le> end_date then
            v\<lparr>entries_in_period := entries_in_period v @ [e],
              movement := add_scaled (movement v) (me_of e) (mult_of e),
              sums_eingang :=
                (if richtung e = Some ''Eingang'' then add_quad (sums_eingang v) (me_of e)
                 else sums_eingang v),
              sums_ausgang :=
                (if richtung e = Some ''Eingang'' then sums_ausgang v
                 else if richtung e = Some ''Ausgang'' then add_quad (sums_ausgang v) (me_of e)
                 else sums_ausgang v)\<rparr>
          else v)"

text \<open>
  \<open>entries_in_period.sort(key=lambda x: x.datum or datetime.min, reverse=True)\<close>: a stable
  sort, newest first; entries with equal keys keep their order.
\<close>

definition sort_key_of :: "entry \<Rightarrow> datetime" where
  "sort_key_of x = (case datum x of None \<Rightarrow> datetime_min | Some d \<Rightarrow> d)"

definition sort_newest_first :: "entry list \<Rightarrow> entry list" where
  "sort_newest_first xs = rev (sort_key sort_key_of (rev xs))"

record calc_result =
  r_entries :: "entry list"
  r_saldo_start :: quad
  r_movement :: quad
  r_saldo_end :: quad
  r_sums_eingang :: quad
  r_sums_ausgang :: quad

text \<open>
  Seed of the starting balance and \<open>base_date\<close>, from the last closure before \<open>start_date\<close>:
  \<open>float(last_closure.saldo_k or 0)\<close>, or the integer 0 without a closure.
\<close>

definition seed_of :: "month_closure option \<Rightarrow> quad \<times> datetime" where
  "seed_of last_closure =
     (case last_closure of
        Some c \<Rightarrow>
          (\<lparr>eup = fl (or0 (saldo_eup c)), gb = fl (or0 (saldo_gb c)),
            tmb1 = fl (or0 (saldo_tmb1 c)), tmb2 = fl (or0 (saldo_tmb2 c))\<rparr>, period_end c)
      | None \<Rightarrow> (quad0, datetime_min))"

definition calculate_saldo_and_sums :: "db \<Rightarrow> nat \<Rightarrow> datetime \<Rightarrow> datetime \<Rightarrow> calc_result option" where
  "calculate_saldo_and_sums s partner_id start_date end_date =
     (case get_partner s partner_id of
        None \<Rightarrow> None
      | Some partner \<Rightarrow>
          let all_entries = collect_partner_entries s (p_id partner);
              last_closure = get_last_closure_before s partner_id start_date;
              (saldo_start0, base_date) = seed_of last_closure;
              v = foldl (loop_body base_date start_date end_date)
                    \<lparr>saldo_start = saldo_start0, movement = quad0, sums_eingang = quad0,
                     sums_ausgang = quad0, entries_in_period = []\<rparr> all_entries
          in Some \<lparr>r_entries = sort_newest_first (entries_in_period v),
                   r_saldo_start = saldo_start v,
                   r_movement = movement v,
                   r_saldo_end = add_quad (saldo_start v) (movement v),
                   r_sums_eingang = sums_eingang v,
                   r_sums_ausgang = sums_ausgang v\<rparr>)"

section \<open>The Closure Manager: \<open>close_month\<close>\<close>

text \<open>
  The POST handler, with \<open>year\<close> and \<open>month\<close> the integers read from the form and \<open>utcnow\<close>
  the clock reading stored as \<open>created_at\<close>. A handler returns the store after the commit,
  or the failure it reports; an uncaught exception leaves the store as it was.
\<close>

definition close_month :: "db \<Rightarrow> nat \<Rightarrow> int \<Rightarrow> int \<Rightarrow> datetime \<Rightarrow> error + db" where
  "close_month s partner_id year month utcnow =
     (case get_partner s partner_id of
        None \<Rightarrow> Inl PartnerNotFound
      | Some partner \<Rightarrow>
          if find (\<lambda>c. mc_partner_id c = partner_id \<and> mc_year c = year \<and> mc_month c = month)
               (closures s) \<noteq> None
          then Inl DuplicateClosure
          else
            (case mk_date year month 1 of
               Inl e \<Rightarrow> Inl e
             | Inr period_ref \<Rightarrow>
                 (case month_range period_ref of
                    Inl e \<Rightarrow> Inl e
                  | Inr (period_start, period_end') \<Rightarrow>
                      (case calculate_saldo_and_sums s partner_id datetime_min period_end' of
                         None \<Rightarrow> Inl PartnerNotFound
                       | Some result \<Rightarrow>
                           let saldo = r_saldo_end result;
                               closure = \<lparr>mc_id = next_id (map mc_id (closures s)),
                                          mc_partner_id = partner_id,
                                          mc_year = year, mc_month = month,
                                          saldo_eup = Some (eup saldo), saldo_gb = Some (gb saldo),
                                          saldo_tmb1 = Some (tmb1 saldo),
                                          saldo_tmb2 = Some (tmb2 saldo),
                                          period_end = period_end',
                                          created_at = Some utcnow\<rparr>
                           in Inr (s\<lparr>closures := closures s @ [closure]\<rparr>)))))"

section \<open>The Entry Recorder: \<open>new_entry\<close> and \<open>correction_entry\<close>\<close>

text \<open>
  The form fields as the handlers see them after \<open>strip()\<close>. Parsing is the library's:
  \<open>f_datum\<close> is what \<open>strptime(..., "%Y-%m-%d")\<close> makes of the date field (empty: today's
  date is filled in; \<open>Bad_datum\<close>: it raises \<open>ValueError\<close>), \<open>f_menge\<close> is what \<open>int(...)\<close>
  makes of the quantity field (\<open>None\<close>: it raises \<open>ValueError\<close>). \<open>now\<close> is the reading of
  \<open>datetime.now()\<close> during the request.
\<close>

datatype datum_field = Empty_datum | Datum date | Bad_datum

definition parse_datum :: "datetime \<Rightarrow> datum_field \<Rightarrow> date option" where
  "parse_datum now f =
     (case f of Empty_datum \<Rightarrow> Some (fst now) | Datum d \<Rightarrow> Some d | Bad_datum \<Rightarrow> None)"

record entry_form =
  f_richtung :: "string option"
  f_typ :: "string option"
  f_menge :: "int option"
  f_kommentar :: string
  f_datum :: datum_field

record correction_form =
  c_belegnummer :: string
  c_datum :: datum_field
  c_typ :: "string option"
  c_menge :: "int option"
  c_kommentar :: string

text \<open>The partner's closure with the latest \<open>period_end\<close>.\<close>

definition last_close_of :: "db \<Rightarrow> nat \<Rightarrow> month_closure option" where
  "last_close_of s pid = first_desc period_end (partner_closures s pid)"

text \<open>The lock test \<open>last_close and d <= last_close.period_end\<close>.\<close>

definition locked :: "month_closure option \<Rightarrow> datetime \<Rightarrow> bool" where
  "locked last_close d =
     (case last_close of None \<Rightarrow> False | Some c \<Rightarrow> d \<le> period_end c)"

text \<open>\<open>mapping.get((richtung_raw or "").upper())\<close>.\<close>

definition richtung_db_of :: "string option \<Rightarrow> string option" where
  "richtung_db_of richtung_raw =
     map_of [(''EIN'', ''Eingang''), (''AUS'', ''Ausgang'')]
       (upper (case richtung_raw of None \<Rightarrow> [] | Some r \<Rightarrow> r))"

text \<open>The distribution of the quantity on the four pallet types.\<close>

definition distribute :: "string option \<Rightarrow> int \<Rightarrow> quad" where
  "distribute typ menge =
     (if typ = Some ''EUP'' then quad0\<lparr>eup := menge\<rparr>
      else if typ = Some ''GB'' then quad0\<lparr>gb := menge\<rparr>
      else if typ = Some ''TMB1'' then quad0\<lparr>tmb1 := menge\<rparr>
      else if typ = Some ''TMB2'' then quad0\<lparr>tmb2 := menge\<rparr>
      else quad0)"

text \<open>\<open>Entry.query.filter(Entry.belegnummer.like(f"{today_str}%")).count()\<close>.\<close>

definition has_prefix :: "string \<Rightarrow> entry \<Rightarrow> bool" where
  "has_prefix p e = (case belegnummer e of None \<Rightarrow> False | Some b \<Rightarrow> take (length p) b = p)"

definition count_prefix :: "db \<Rightarrow> string \<Rightarrow> nat" where
  "count_prefix s p = length (filter (has_prefix p) (entries s))"

definition new_belegnummer :: "db \<Rightarrow> datetime \<Rightarrow> string" where
  "new_belegnummer s now =
     (let today_str = strftime_Ymd now;
          count_today = count_prefix s today_str + 1
      in today_str @ zfill 2 count_today)"

definition new_entry :: "db \<Rightarrow> nat \<Rightarrow> datetime \<Rightarrow> entry_form \<Rightarrow> error + db" where
  "new_entry s partner_id now form =
     (case get_partner s partner_id of
        None \<Rightarrow> Inl PartnerNotFound
      | Some partner \<Rightarrow>
     (case partner_accounts s (p_id partner) of
        [] \<Rightarrow> Inl NoAccount
      | account # _ \<Rightarrow>
     (case parse_datum now (f_datum form) of
        None \<Rightarrow> Inl InvalidDate
      | Some user_date \<Rightarrow>
          let entry_date = combine user_date (snd now) in
     if locked (last_close_of s (p_id partner)) entry_date then Inl ClosureLocked
     else
     (case f_menge form of
        None \<Rightarrow> Inl InvalidQuantity
      | Some menge \<Rightarrow>
          let richtung_db = richtung_db_of (f_richtung form) in
          if richtung_db \<noteq> Some ''Eingang'' \<and> richtung_db \<noteq> Some ''Ausgang''
          then Inl InvalidDirection
          else if richtung_db = Some ''Ausgang'' \<and> \<not> re_search_d4 (f_kommentar form)
          then Inl MissingReferenceNumber
          else
            let m = distribute (f_typ form) menge;
                new_e = \<lparr>e_id = next_id (map e_id (entries s)),
                         belegnummer = Some (new_belegnummer s now),
                         datum = Some entry_date,
                         richtung = richtung_db,
                         menge_eup = Some (eup m), menge_gb = Some (gb m),
                         menge_tmb1 = Some (tmb1 m), menge_tmb2 = Some (tmb2 m),
                         kommentar = Some (f_kommentar form),
                         konto_seq = 0,
                         erfasst_von = Some ''Taach'',
                         account_id = Some (a_id account)\<rparr>
            in Inr (s\<lparr>entries := entries s @ [new_e]\<rparr>)))))"


text \<open>
  \<open>Entry.query.join(Account, Entry.account_id == Account.id)
     .filter(Account.partner_id == partner.id).filter(Entry.belegnummer == belegnummer)\<close>:
  the partner's entries with this belegnummer, in table order.
\<close>

definition of_partner :: "db \<Rightarrow> nat \<Rightarrow> entry \<Rightarrow> bool" where
  "of_partner s pid e =
     list_ex (\<lambda>a. account_id e = Some (a_id a) \<and> a_partner_id a = Some pid) (accounts s)"

definition beleg_group :: "db \<Rightarrow> nat \<Rightarrow> string \<Rightarrow> entry list" where
  "beleg_group s pid b =
     filter (\<lambda>e. of_partner s pid e \<and> belegnummer e = Some b) (entries s)"

text \<open>
  The original booking: among the group's entries with direction Eingang or Ausgang, the
  first by \<open>konto_seq\<close> descending, then \<open>id\<close> descending.
\<close>

definition find_original :: "db \<Rightarrow> nat \<Rightarrow> string \<Rightarrow> entry option" where
  "find_original s pid b =
     first_desc (\<lambda>e. (konto_seq e, e_id e))
       (filter (\<lambda>e. richtung e = Some ''Eingang'' \<or> richtung e = Some ''Ausgang'')
          (beleg_group s pid b))"

text \<open>\<open>next_seq = (last_for_beleg.konto_seq or 0) + 1 if last_for_beleg else 1\<close>.\<close>

definition next_seq_of :: "db \<Rightarrow> nat \<Rightarrow> string \<Rightarrow> int" where
  "next_seq_of s pid b =
     (case first_desc konto_seq (beleg_group s pid b) of
        Some last_for_beleg \<Rightarrow> konto_seq last_for_beleg + 1
      | None \<Rightarrow> 1)"

text \<open>
  The lock test of the correction, \<open>last_close and original.datum <= last_close.period_end\<close>;
  with a closure present, an original without \<open>datum\<close> makes the comparison raise.
\<close>

definition original_locked :: "month_closure option \<Rightarrow> entry \<Rightarrow> error + bool" where
  "original_locked last_close original =
     (case last_close of
        None \<Rightarrow> Inr False
      | Some c \<Rightarrow>
          (case datum original of
             None \<Rightarrow> Inl TypeError
           | Some d \<Rightarrow> Inr (d \<le> period_end c)))"

definition correction_entry :: "db \<Rightarrow> nat \<Rightarrow> datetime \<Rightarrow> correction_form \<Rightarrow> error + db" where
  "correction_entry s partner_id now form =
     (case get_partner s partner_id of
        None \<Rightarrow> Inl PartnerNotFound
      | Some partner \<Rightarrow>
     (case partner_accounts s (p_id partner) of
        [] \<Rightarrow> Inl NoAccount
      | account # _ \<Rightarrow>
     if c_belegnummer form = [] then Inl MissingBelegnummer
     else if c_kommentar form = [] then Inl MissingKommentar
     else
     (case parse_datum now (c_datum form) of
        None \<Rightarrow> Inl InvalidDate
      | Some user_date \<Rightarrow>
          let entry_date = combine user_date (snd now) in
     (case find_original s (p_id partner) (c_belegnummer form) of
        None \<Rightarrow> Inl OriginalEntryNotFound
      | Some original \<Rightarrow>
     (case original_locked (last_close_of s (p_id partner)) original of
        Inl e \<Rightarrow> Inl e
      | Inr True \<Rightarrow> Inl ClosureLocked
      | Inr False \<Rightarrow>
     (case c_menge form of
        None \<Rightarrow> Inl InvalidQuantity
      | Some menge \<Rightarrow>
          let korr_menge = (if richtung original = Some ''Ausgang'' then menge else - menge);
              m = distribute (c_typ form) korr_menge;
              next_seq = next_seq_of s (p_id partner) (c_belegnummer form);
              new_e = \<lparr>e_id = next_id (map e_id (entries s)),
                       belegnummer = Some (c_belegnummer form),
                       datum = Some entry_date,
                       richtung = Some ''Korrektur'',
                       menge_eup = Some (eup m), menge_gb = Some (gb m),
                       menge_tmb1 = Some (tmb1 m), menge_tmb2 = Some (tmb2 m),
                       kommentar = Some (c_kommentar form),
                       konto_seq = next_seq,
                       erfasst_von = Some ''Taach'',
                       account_id = Some (a_id account)\<rparr>
          in Inr (s\<lparr>entries := entries s @ [new_e]\<rparr>)))))))"

section \<open>Deleting a partner: \<open>delete_partner\<close>\<close>

text \<open>
  The handler deletes the partner's closures, the entries of each of the partner's accounts,
  the accounts, and the partner.
\<close>

definition delete_partner :: "db \<Rightarrow> nat \<Rightarrow> error + db" where
  "delete_partner s partner_id =
     (case get_partner s partner_id of
        None \<Rightarrow> Inl PartnerNotFound
      | Some partner \<Rightarrow>
          let accs = partner_accounts s (p_id partner)
          in Inr \<lparr>partners = filter (\<lambda>p. p_id p \<noteq> p_id partner) (partners s),
                  accounts = filter (\<lambda>a. a_partner_id a \<noteq> Some (p_id partner)) (accounts s),
                  entries =
                    filter (\<lambda>e. \<not> list_ex (\<lambda>acc. account_id e = Some (a_id acc)) accs)
                      (entries s),
                  closures = filter (\<lambda>c. mc_partner_id c \<noteq> p_id partner) (closures s)\<rparr>)"

section \<open>Notions used to state the properties\<close>

subsection \<open>Balance Calculator\<close>

text \<open>The seed of a calculation: the closure's balances and \<open>base_date\<close>.\<close>

definition seed :: "db \<Rightarrow> nat \<Rightarrow> datetime \<Rightarrow> quad \<times> datetime" where
  "seed s pid start_date = seed_of (get_last_closure_before s pid start_date)"

text \<open>An entry in the catch-up zone: its timestamp lies strictly between both dates.\<close>

definition catch_up :: "datetime \<Rightarrow> datetime \<Rightarrow> entry \<Rightarrow> bool" where
  "catch_up base_date start_date e =
     (case datum e of None \<Rightarrow> False | Some d \<Rightarrow> base_date < d \<and> d < start_date)"

text \<open>An entry counted in the period: after \<open>base_date\<close> and within the period's bounds.\<close>

definition in_period :: "datetime \<Rightarrow> datetime \<Rightarrow> datetime \<Rightarrow> entry \<Rightarrow> bool" where
  "in_period base_date start_date end_date e =
     (case datum e of None \<Rightarrow> False
      | Some d \<Rightarrow> base_date < d \<and> start_date \<le> d \<and> d \<le> end_date)"


text \<open>Quantity times direction multiplier, for one quantity column of an entry.\<close>

definition signed :: "(entry \<Rightarrow> int option) \<Rightarrow> entry \<Rightarrow> int" where
  "signed menge e = or0 (menge e) * mult_of e"

text \<open>The quantity column of a pallet category, and its key in the dictionaries.\<close>

definition categories :: "string list" where
  "categories = [''EUP'', ''GB'', ''TMB1'', ''TMB2'']"

definition menge_field :: "string \<Rightarrow> entry \<Rightarrow> int option" where
  "menge_field typ =
     (if typ = ''EUP'' then menge_eup else if typ = ''GB'' then menge_gb
      else if typ = ''TMB1'' then menge_tmb1 else menge_tmb2)"

definition quad_field :: "string \<Rightarrow> quad \<Rightarrow> int" where
  "quad_field typ =
     (if typ = ''EUP'' then eup else if typ = ''GB'' then gb
      else if typ = ''TMB1'' then tmb1 else tmb2)"

text \<open>
  The balances \<open>d\<close> after the loop has added the signed quantities of the entries \<open>es\<close> to
  them, one entry after the other, each addition a float addition.
\<close>

definition fold_scaled :: "quad \<Rightarrow> entry list \<Rightarrow> quad" where
  "fold_scaled d es = foldl (\<lambda>d e. add_scaled d (me_of e) (mult_of e)) d es"

subsection \<open>Entry Recorder\<close>

text \<open>The checks of \<open>new_entry\<close> that come before the direction check all pass.\<close>

definition reaches_direction_check :: "db \<Rightarrow> nat \<Rightarrow> datetime \<Rightarrow> entry_form \<Rightarrow> bool" where
  "reaches_direction_check s pid now form =
     (get_partner s pid \<noteq> None \<and> partner_accounts s pid \<noteq> [] \<and>
      (case parse_datum now (f_datum form) of
         None \<Rightarrow> False
       | Some user_date \<Rightarrow> \<not> locked (last_close_of s pid) (combine user_date (snd now))) \<and>
      f_menge form \<noteq> None)"

text \<open>
  The failure of the first check that fails, among the checks \<open>new_entry\<close> makes before it
  looks at the direction: the partner exists, the partner has an account, the date parses,
  the date is not locked by the partner's latest closure, the quantity parses. \<open>None\<close> when
  all five pass.
\<close>

definition first_failure :: "db \<Rightarrow> nat \<Rightarrow> datetime \<Rightarrow> entry_form \<Rightarrow> error option" where
  "first_failure s pid now form =
     (if get_partner s pid = None then Some PartnerNotFound
      else if partner_accounts s pid = [] then Some NoAccount
      else
        (case parse_datum now (f_datum form) of
           None \<Rightarrow> Some InvalidDate
         | Some user_date \<Rightarrow>
             if locked (last_close_of s pid) (combine user_date (snd now))
             then Some ClosureLocked
             else if f_menge form = None then Some InvalidQuantity
             else None))"

text \<open>All validations of \<open>new_entry\<close> pass.\<close>

definition entry_valid :: "db \<Rightarrow> nat \<Rightarrow> datetime \<Rightarrow> entry_form \<Rightarrow> bool" where
  "entry_valid s pid now form =
     (reaches_direction_check s pid now form \<and>
      (richtung_db_of (f_richtung form) = Some ''Eingang'' \<or>
       richtung_db_of (f_richtung form) = Some ''Ausgang'' \<and> re_search_d4 (f_kommentar form)))"

text \<open>All validations of \<open>correction_entry\<close> pass.\<close>

definition correction_valid :: "db \<Rightarrow> nat \<Rightarrow> datetime \<Rightarrow> correction_form \<Rightarrow> bool" where
  "correction_valid s pid now form =
     (get_partner s pid \<noteq> None \<and> partner_accounts s pid \<noteq> [] \<and>
      c_belegnummer form \<noteq> [] \<and> c_kommentar form \<noteq> [] \<and>
      parse_datum now (c_datum form) \<noteq> None \<and>
      (case find_original s pid (c_belegnummer form) of
         None \<Rightarrow> False
       | Some original \<Rightarrow> original_locked (last_close_of s pid) original = Inr False) \<and>
      c_menge form \<noteq> None)"

text \<open>A string contains a run of at least four consecutive digits.\<close>

definition has_digit_run :: "string \<Rightarrow> bool" where
  "has_digit_run s =
     (\<exists>pre run post. s = pre @ run @ post \<and> 4 \<le> length run \<and> list_all is_digit run)"

text \<open>The number a string of decimal digits denotes.\<close>

definition digit_val :: "char \<Rightarrow> nat" where
  "digit_val c = (of_char c :: nat) - 48"

definition val_digits :: "string \<Rightarrow> nat" where
  "val_digits cs = foldl (\<lambda>a c. 10 * a + digit_val c) 0 cs"

text \<open>A string starts with a prefix.\<close>

fun starts_with :: "string \<Rightarrow> string \<Rightarrow> bool" where
  "starts_with [] b = True"
| "starts_with (p # ps) [] = False"
| "starts_with (p # ps) (c # cs) = (p = c \<and> starts_with ps cs)"

text \<open>The number of entries of the store whose belegnummer starts with a prefix.\<close>

definition entries_starting_with :: "db \<Rightarrow> string \<Rightarrow> nat" where
  "entries_starting_with s p =
     length (filter (\<lambda>x. case belegnummer x of None \<Rightarrow> False | Some b \<Rightarrow> starts_with p b)
       (entries s))"

text \<open>The clock shows a date of the calendar, of a year with four digits.\<close>

definition calendar_clock :: "datetime \<Rightarrow> bool" where
  "calendar_clock now = (valid_datetime now \<and> 1000 \<le> fst (fst now))"

text \<open>
  The stores that arise from a store without entries by recording entries and corrections
  and closing months, with no partner deleted; account ids are a primary key.
\<close>

inductive reachable :: "db \<Rightarrow> bool" where
  init: "entries s = [] \<Longrightarrow> distinct (map a_id (accounts s)) \<Longrightarrow> reachable s"
| entry: "reachable s \<Longrightarrow> calendar_clock now \<Longrightarrow> new_entry s pid now form = Inr s' \<Longrightarrow> reachable s'"
| correction: "reachable s \<Longrightarrow> correction_entry s pid now cform = Inr s' \<Longrightarrow> reachable s'"
| closure: "reachable s \<Longrightarrow> close_month s pid y m utcnow = Inr s' \<Longrightarrow> reachable s'"

text \<open>
  What holds of every such store. Each belegnummer is a date prefix of eight characters
  followed by a number that the count of that prefix has reached; within the entries of a
  partner under a belegnummer the \<open>konto_seq\<close> values run 0, 1, 2, ... in table order; and
  an entry is an Eingang or Ausgang with \<open>konto_seq\<close> 0 or a Korrektur with a positive one.
\<close>

definition well_numbered :: "db \<Rightarrow> bool" where
  "well_numbered s =
     (\<forall>e \<in> set (entries s). \<exists>P k. length P = 8 \<and> belegnummer e = Some (P @ zfill 2 k) \<and>
        k \<le> count_prefix s P)"

definition gapless :: "db \<Rightarrow> bool" where
  "gapless s =
     (\<forall>pid b. map konto_seq (beleg_group s pid b) =
        map int [0..<length (beleg_group s pid b)])"

definition roles :: "db \<Rightarrow> bool" where
  "roles s =
     (\<forall>e \<in> set (entries s).
        (richtung e = Some ''Eingang'' \<or> richtung e = Some ''Ausgang'') \<and> konto_seq e = 0 \<or>
        richtung e = Some ''Korrektur'' \<and> 1 \<le> konto_seq e)"

definition numbering_invariant :: "db \<Rightarrow> bool" where
  "numbering_invariant s =
     (distinct (map a_id (accounts s)) \<and> well_numbered s \<and> gapless s \<and> roles s)"

subsection \<open>A small store for concrete checks\<close>

definition ex_entry :: "nat \<Rightarrow> string \<Rightarrow> datetime \<Rightarrow> string \<Rightarrow> int \<Rightarrow> int \<Rightarrow> int \<Rightarrow> entry" where
  "ex_entry i b d r q1 q2 k =
     \<lparr>e_id = i, belegnummer = Some b, datum = Some d, richtung = Some r,
      menge_eup = Some q1, menge_gb = Some q2, menge_tmb1 = Some 0, menge_tmb2 = Some 0,
      kommentar = Some ''doc-10023'', konto_seq = k, erfasst_von = Some ''Taach'',
      account_id = Some 1\<rparr>"

definition ex_closure :: month_closure where
  "ex_closure =
     \<lparr>mc_id = 1, mc_partner_id = 1, mc_year = 2024, mc_month = 1,
      saldo_eup = Some 6, saldo_gb = Some 0, saldo_tmb1 = Some 0, saldo_tmb2 = Some 0,
      period_end = ((2024, 1, 31), (23, 59, 59, 0)), created_at = None\<rparr>"

definition ex_empty :: db where
  "ex_empty =
     \<lparr>partners = [\<lparr>p_id = 1, p_name = ''P''\<rparr>],
      accounts = [\<lparr>a_id = 1, a_partner_id = Some 1\<rparr>],
      entries = [],
      closures = []\<rparr>"

definition ex_db :: db where
  "ex_db =
     ex_empty\<lparr>entries :=
        [ex_entry 1 ''2024011001'' ((2024, 1, 10), (9, 0, 0, 0)) ''Eingang'' 10 0 0,
         ex_entry 2 ''2024012001'' ((2024, 1, 20), (9, 0, 0, 0)) ''Ausgang'' 4 0 0,
         ex_entry 3 ''2024020501'' ((2024, 2, 5), (9, 0, 0, 0)) ''Eingang'' 0 3 0,
         ex_entry 4 ''2024031001'' ((2024, 3, 10), (9, 0, 0, 0)) ''Ausgang'' 0 5 0,
         ex_entry 5 ''2024031001'' ((2024, 3, 12), (9, 0, 0, 0)) ''Korrektur'' 0 2 1],
      closures := [ex_closure]\<rparr>"

text \<open>A store whose quantities reach \<open>2 ^ 53\<close>, where the doubles no longer hold every integer.\<close>

definition ex_big :: db where
  "ex_big =
     ex_empty\<lparr>entries :=
        [ex_entry 1 ''2024020501'' ((2024, 2, 5), (9, 0, 0, 0)) ''Eingang'' 9007199254740992 0 0,
         ex_entry 2 ''2024021001'' ((2024, 2, 10), (9, 0, 0, 0)) ''Eingang'' 1 0 0,
         ex_entry 3 ''2024031001'' ((2024, 3, 10), (9, 0, 0, 0)) ''Eingang'' 1 0 0]\<rparr>"

text \<open>Two partners with an account each, and no entries.\<close>

definition ex_two :: db where
  "ex_two =
     \<lparr>partners = [\<lparr>p_id = 1, p_name = ''P''\<rparr>, \<lparr>p_id = 2, p_name = ''Q''\<rparr>],
      accounts = [\<lparr>a_id = 1, a_partner_id = Some 1\<rparr>, \<lparr>a_id = 2, a_partner_id = Some 2\<rparr>],
      entries = [],
      closures = []\<rparr>"

definition ex_now :: datetime where
  "ex_now = ((2024, 3, 15), (12, 30, 0, 250000))"

definition ex_form :: "string \<Rightarrow> string \<Rightarrow> int option \<Rightarrow> string \<Rightarrow> date \<Rightarrow> entry_form" where
  "ex_form r t q k d =
     \<lparr>f_richtung = Some r, f_typ = Some t, f_menge = q, f_kommentar = k, f_datum = Datum d\<rparr>"

definition ex_cform :: "string \<Rightarrow> string \<Rightarrow> int option \<Rightarrow> date \<Rightarrow> correction_form" where
  "ex_cform b t q d =
     \<lparr>c_belegnummer = b, c_datum = Datum d, c_typ = Some t, c_menge = q,
      c_kommentar = ''Korrektur zu Beleg''\<rparr>"

text \<open>The row \<open>new_entry\<close> persists, from the values its checks have produced.\<close>

definition new_entry_row :: "db \<Rightarrow> account \<Rightarrow> datetime \<Rightarrow> entry_form \<Rightarrow> date \<Rightarrow> int \<Rightarrow> string \<Rightarrow> entry" where
  "new_entry_row s a now form user_date menge r =
     \<lparr>e_id = next_id (map e_id (entries s)),
      belegnummer = Some (new_belegnummer s now),
      datum = Some (combine user_date (snd now)),
      richtung = Some r,
      menge_eup = Some (eup (distribute (f_typ form) menge)),
      menge_gb = Some (gb (distribute (f_typ form) menge)),
      menge_tmb1 = Some (tmb1 (distribute (f_typ form) menge)),
      menge_tmb2 = Some (tmb2 (distribute (f_typ form) menge)),
      kommentar = Some (f_kommentar form),
      konto_seq = 0,
      erfasst_von = Some ''Taach'',
      account_id = Some (a_id a)\<rparr>"

text \<open>The row \<open>correction_entry\<close> persists.\<close>

definition correction_row :: "db \<Rightarrow> nat \<Rightarrow> account \<Rightarrow> datetime \<Rightarrow> correction_form \<Rightarrow> date \<Rightarrow> entry \<Rightarrow> int \<Rightarrow> entry" where
  "correction_row s pid a now form user_date original menge =
     \<lparr>e_id = next_id (map e_id (entries s)),
      belegnummer = Some (c_belegnummer form),
      datum = Some (combine user_date (snd now)),
      richtung = Some ''Korrektur'',
      menge_eup = Some (eup (distribute (c_typ form)
        (if richtung original = Some ''Ausgang'' then menge else - menge))),
      menge_gb = Some (gb (distribute (c_typ form)
        (if richtung original = Some ''Ausgang'' then menge else - menge))),
      menge_tmb1 = Some (tmb1 (distribute (c_typ form)
        (if richtung original = Some ''Ausgang'' then menge else - menge))),
      menge_tmb2 = Some (tmb2 (distribute (c_typ form)
        (if richtung original = Some ''Ausgang'' then menge else - menge))),
      kommentar = Some (c_kommentar form),
      konto_seq = next_seq_of s pid (c_belegnummer form),
      erfasst_von = Some ''Taach'',
      account_id = Some (a_id a)\<rparr>"

section \<open>Properties of the Balance Calculator\<close>

subsection \<open>Where float arithmetic is exact\<close>

lemma bit_length_le: "n < 2 ^ k \<Longrightarrow> bit_length n \<le> k"
proof (induction k arbitrary: n)
  case 0
  then have "n = 0" by simp
  then show ?case by (simp add: bit_length.simps)
next
  case (Suc k)
  show ?case
  proof (cases "n = 0")
    case True
    then show ?thesis by (simp add: bit_length.simps)
  next
    case False
    from Suc.prems have "n div 2 < 2 ^ k" by simp
    from Suc.IH [OF this] False show ?thesis by (subst bit_length.simps) simp
  qed
qed

lemma bit_length_ge: "2 ^ k \<le> n \<Longrightarrow> Suc k \<le> bit_length n"
proof (induction k arbitrary: n)
  case 0
  then have "n \<noteq> 0" by simp
  then show ?case by (subst bit_length.simps) simp
next
  case (Suc k)
  have "n \<noteq> 0" using Suc.prems by (cases "n = 0") simp_all
  from Suc.prems have "2 ^ k \<le> n div 2" by simp
  from Suc.IH [OF this] \<open>n \<noteq> 0\<close> show ?case by (subst bit_length.simps) simp
qed

lemma round_nat_small: "n < 2 ^ 53 \<Longrightarrow> round_nat n = n"
  using bit_length_le [of n 53] by (simp add: round_nat_def Let_def)

lemma bit_length_54: "2 ^ 53 \<le> n \<Longrightarrow> n < 2 ^ 54 \<Longrightarrow> bit_length n = 54"
  using bit_length_le [of n 54] bit_length_ge [of 53 n] by simp

lemma round_nat_2_53: "round_nat (2 ^ 53) = 2 ^ 53"
proof -
  have "bit_length (2 ^ 53) = 54" by (rule bit_length_54) simp_all
  then show ?thesis by (simp add: round_nat_def Let_def)
qed

lemma fl_exact: "\<bar>x\<bar> \<le> 2 ^ 53 \<Longrightarrow> fl x = x"
proof -
  assume a: "\<bar>x\<bar> \<le> 2 ^ 53"
  have r: "round_nat (nat \<bar>x\<bar>) = nat \<bar>x\<bar>"
  proof (cases "\<bar>x\<bar> = 2 ^ 53")
    case True
    then have "nat \<bar>x\<bar> = 2 ^ 53" by simp
    then show ?thesis by (simp only: round_nat_2_53)
  next
    case False
    with a have "nat \<bar>x\<bar> < 2 ^ 53" by simp
    then show ?thesis by (rule round_nat_small)
  qed
  show ?thesis
  proof (cases "x < 0")
    case True
    then have e: "nat (- x) = nat \<bar>x\<bar>" by simp
    have "fl x = - int (round_nat (nat (- x)))" using True by (simp add: fl_def)
    also have "\<dots> = - int (nat \<bar>x\<bar>)" by (simp only: e r)
    also have "\<dots> = x" using True by simp
    finally show ?thesis .
  next
    case False
    then have e: "nat x = nat \<bar>x\<bar>" by simp
    have "fl x = int (round_nat (nat x))" using False by (simp add: fl_def)
    also have "\<dots> = int (nat \<bar>x\<bar>)" by (simp only: e r)
    also have "\<dots> = x" using False by simp
    finally show ?thesis .
  qed
qed

text \<open>The first integer that is no double: \<open>2 ^ 53 + 1\<close> becomes \<open>2 ^ 53\<close>.\<close>

lemma fl_first_inexact: "fl 9007199254740993 = 9007199254740992"
proof -
  have "bit_length 9007199254740993 = 54" by (rule bit_length_54) simp_all
  then show ?thesis by (simp add: fl_def round_nat_def Let_def)
qed

lemma mult_of_cases: "mult_of e = 1 \<or> mult_of e = - 1"
  by (simp add: mult_of_def)

lemma abs_signed: "\<bar>signed menge e\<bar> = \<bar>or0 (menge e)\<bar>"
  using mult_of_cases [of e] by (auto simp add: signed_def)

lemma scaled_step_exact:
  assumes "\<bar>d\<bar> + \<bar>q\<bar> \<le> 2 ^ 53" "m = 1 \<or> m = - 1"
  shows "fadd d (fmul (fl q) m) = d + q * m"
proof -
  have q: "fl q = q" using assms(1) by (intro fl_exact) linarith
  have "\<bar>q * m\<bar> = \<bar>q\<bar>" using assms(2) by auto
  then have p: "fl (q * m) = q * m" using assms(1) by (intro fl_exact) linarith
  have "\<bar>d + q * m\<bar> \<le> \<bar>d\<bar> + \<bar>q\<bar>" using assms(2) by auto
  then have "fl (d + q * m) = d + q * m" using assms(1) by (intro fl_exact) linarith
  with p show ?thesis by (simp add: fadd_def fmul_def q)
qed

lemma quad_field_add_scaled:
  "quad_field typ (add_scaled d me m) = fadd (quad_field typ d) (fmul (quad_field typ me) m)"
  by (simp add: quad_field_def add_scaled_def)

lemma quad_field_add_quad:
  "quad_field typ (add_quad d me) = fl (quad_field typ d + quad_field typ me)"
  by (simp add: quad_field_def add_quad_def fadd_def)

lemma quad_field_me_of:
  "typ \<in> set categories \<Longrightarrow> quad_field typ (me_of e) = fl (or0 (menge_field typ e))"
  by (auto simp add: categories_def quad_field_def menge_field_def me_of_def)



text \<open>
  While the magnitudes of the balance and of the quantities added to it sum up to at most
  \<open>2 ^ 53\<close>, the float loop computes the integer sum.
\<close>

lemma fold_scaled_exact:
  assumes "typ \<in> set categories"
  shows "\<bar>quad_field typ d\<bar> + (\<Sum>e\<leftarrow>es. \<bar>or0 (menge_field typ e)\<bar>) \<le> 2 ^ 53 \<Longrightarrow>
     quad_field typ (fold_scaled d es) =
       quad_field typ d + (\<Sum>e\<leftarrow>es. signed (menge_field typ) e)"
proof (induction es arbitrary: d)
  case Nil
  show ?case by (simp add: fold_scaled_def)
next
  case (Cons x xs)
  let ?d = "add_scaled d (me_of x) (mult_of x)"
  have n: "0 \<le> (\<Sum>e\<leftarrow>xs. \<bar>or0 (menge_field typ e)\<bar>)"
    by (rule sum_list_nonneg) auto
  from Cons.prems n have b: "\<bar>quad_field typ d\<bar> + \<bar>or0 (menge_field typ x)\<bar> \<le> 2 ^ 53"
    by simp
  have step: "quad_field typ ?d = quad_field typ d + signed (menge_field typ) x"
    unfolding quad_field_add_scaled quad_field_me_of [OF assms] signed_def
    by (rule scaled_step_exact [OF b mult_of_cases])
  have "\<bar>quad_field typ ?d\<bar> \<le> \<bar>quad_field typ d\<bar> + \<bar>or0 (menge_field typ x)\<bar>"
    unfolding step using abs_signed [of "menge_field typ" x] by linarith
  with Cons.prems
  have "\<bar>quad_field typ ?d\<bar> + (\<Sum>e\<leftarrow>xs. \<bar>or0 (menge_field typ e)\<bar>) \<le> 2 ^ 53"
    by simp
  from Cons.IH [OF this] step have "quad_field typ (fold_scaled ?d xs) =
      quad_field typ d + signed (menge_field typ) x + (\<Sum>e\<leftarrow>xs. signed (menge_field typ) e)"
    by simp
  then show ?case by (simp add: fold_scaled_def)
qed

subsection \<open>The loop\<close>

lemma loop_body_cases:
  "loop_body b s e v x =
     (if catch_up b s x then v\<lparr>saldo_start := add_scaled (saldo_start v) (me_of x) (mult_of x)\<rparr>
      else if in_period b s e x then
        v\<lparr>entries_in_period := entries_in_period v @ [x],
          movement := add_scaled (movement v) (me_of x) (mult_of x),
          sums_eingang :=
            (if richtung x = Some ''Eingang'' then add_quad (sums_eingang v) (me_of x)
             else sums_eingang v),
          sums_ausgang :=
            (if richtung x = Some ''Eingang'' then sums_ausgang v
             else if richtung x = Some ''Ausgang'' then add_quad (sums_ausgang v) (me_of x)
             else sums_ausgang v)\<rparr>
      else v)"
proof (cases "datum x")
  case None
  then show ?thesis by (simp add: loop_body_def catch_up_def in_period_def)
next
  case (Some d)
  show ?thesis
  proof (cases "d \<le> b")
    case True
    then have "\<not> b < d" by simp
    with True Some show ?thesis by (simp add: loop_body_def catch_up_def in_period_def)
  next
    case False
    then have "b < d" by simp
    with False Some show ?thesis by (simp add: loop_body_def catch_up_def in_period_def)
  qed
qed

lemma catch_up_not_in_period: "catch_up b s x \<Longrightarrow> \<not> in_period b s e x"
  by (cases "datum x") (auto simp add: catch_up_def in_period_def)

lemma foldl_saldo_start:
  "saldo_start (foldl (loop_body b s e) v xs) =
     fold_scaled (saldo_start v) (filter (catch_up b s) xs)"
  by (induction xs arbitrary: v) (simp_all add: loop_body_cases fold_scaled_def)

lemma foldl_movement:
  "movement (foldl (loop_body b s e) v xs) =
     fold_scaled (movement v) (filter (in_period b s e) xs)"
  by (induction xs arbitrary: v)
     (simp_all add: loop_body_cases fold_scaled_def catch_up_not_in_period)

lemma foldl_entries:
  "entries_in_period (foldl (loop_body b s e) v xs) =
     entries_in_period v @ filter (in_period b s e) xs"
  by (induction xs arbitrary: v) (simp_all add: loop_body_cases catch_up_not_in_period)

lemma set_sort_newest_first: "set (sort_newest_first xs) = set xs"
  by (simp add: sort_newest_first_def)

lemma get_partner_id: "get_partner s pid = Some p \<Longrightarrow> p_id p = pid"
  by (auto simp: get_partner_def find_Some_iff)

text \<open>For an existing partner the calculator returns a result, with these components.\<close>

lemma calculate_Some:
  assumes "get_partner s pid = Some p"
  shows "\<exists>r. calculate_saldo_and_sums s pid start_date end_date = Some r \<and>
     r_saldo_start r = fold_scaled (fst (seed s pid start_date))
        (filter (catch_up (snd (seed s pid start_date)) start_date)
           (collect_partner_entries s pid)) \<and>
     r_movement r = fold_scaled quad0
        (filter (in_period (snd (seed s pid start_date)) start_date end_date)
           (collect_partner_entries s pid)) \<and>
     r_saldo_end r = add_quad (r_saldo_start r) (r_movement r) \<and>
     set (r_entries r) = {e \<in> set (collect_partner_entries s pid).
        in_period (snd (seed s pid start_date)) start_date end_date e}"
proof -
  have pid: "p_id p = pid" using assms by (rule get_partner_id)
  obtain q0 b where sd: "seed_of (get_last_closure_before s pid start_date) = (q0, b)"
    by (cases "seed_of (get_last_closure_before s pid start_date)")
  show ?thesis
    using assms sd
    by (simp add: calculate_saldo_and_sums_def seed_def Let_def pid foldl_saldo_start
        foldl_movement foldl_entries set_sort_newest_first)
qed

lemma calculate_None: "get_partner s pid = None \<Longrightarrow> calculate_saldo_and_sums s pid a b = None"
  by (simp add: calculate_saldo_and_sums_def)



subsection \<open>The small stores\<close>

lemma ex_calculate:
  "calculate_saldo_and_sums ex_db 1 ((2024, 3, 1), (0, 0, 0, 0)) ((2024, 3, 31), (23, 59, 59, 0)) =
     Some \<lparr>r_entries =
             [ex_entry 5 ''2024031001'' ((2024, 3, 12), (9, 0, 0, 0)) ''Korrektur'' 0 2 1,
              ex_entry 4 ''2024031001'' ((2024, 3, 10), (9, 0, 0, 0)) ''Ausgang'' 0 5 0],
            r_saldo_start = \<lparr>eup = 6, gb = 3, tmb1 = 0, tmb2 = 0\<rparr>,
            r_movement = \<lparr>eup = 0, gb = - 3, tmb1 = 0, tmb2 = 0\<rparr>,
            r_saldo_end = \<lparr>eup = 6, gb = 0, tmb1 = 0, tmb2 = 0\<rparr>,
            r_sums_eingang = \<lparr>eup = 0, gb = 0, tmb1 = 0, tmb2 = 0\<rparr>,
            r_sums_ausgang = \<lparr>eup = 0, gb = 5, tmb1 = 0, tmb2 = 0\<rparr>\<rparr>"
  by (simp add: calculate_saldo_and_sums_def ex_db_def ex_empty_def get_partner_def
      collect_partner_entries_def partner_accounts_def account_entries_def ex_entry_def
      get_last_closure_before_def partner_closures_def ex_closure_def seed_of_def or0_def
      loop_body_def me_of_def mult_of_def add_scaled_def add_quad_def quad0_def
      sort_newest_first_def sort_key_of_def fadd_def fmul_def fl_exact)

lemma ex_seed:
  "seed ex_db 1 ((2024, 3, 1), (0, 0, 0, 0)) =
     (\<lparr>eup = 6, gb = 0, tmb1 = 0, tmb2 = 0\<rparr>, ((2024, 1, 31), (23, 59, 59, 0)))"
  by (simp add: seed_def seed_of_def get_last_closure_before_def partner_closures_def ex_db_def
      ex_empty_def ex_closure_def or0_def fl_exact)

lemma ex_collect: "collect_partner_entries ex_db 1 = entries ex_db"
  by (simp add: collect_partner_entries_def partner_accounts_def account_entries_def ex_db_def
      ex_empty_def ex_entry_def)

lemma ex_big_partner: "get_partner ex_big 1 = Some \<lparr>p_id = 1, p_name = ''P''\<rparr>"
  by (simp add: get_partner_def ex_big_def ex_empty_def)

lemma ex_big_seed: "seed ex_big 1 ((2024, 3, 1), (0, 0, 0, 0)) = (quad0, datetime_min)"
  by (simp add: seed_def seed_of_def get_last_closure_before_def partner_closures_def ex_big_def
      ex_empty_def)

lemma ex_big_collect: "collect_partner_entries ex_big 1 = entries ex_big"
  by (simp add: collect_partner_entries_def partner_accounts_def account_entries_def ex_big_def
      ex_empty_def ex_entry_def)

lemma ex_big_calculate:
  "calculate_saldo_and_sums ex_big 1 ((2024, 3, 1), (0, 0, 0, 0)) ((2024, 3, 31), (23, 59, 59, 0)) =
     Some \<lparr>r_entries =
             [ex_entry 3 ''2024031001'' ((2024, 3, 10), (9, 0, 0, 0)) ''Eingang'' 1 0 0],
            r_saldo_start = \<lparr>eup = 9007199254740992, gb = 0, tmb1 = 0, tmb2 = 0\<rparr>,
            r_movement = \<lparr>eup = 1, gb = 0, tmb1 = 0, tmb2 = 0\<rparr>,
            r_saldo_end = \<lparr>eup = 9007199254740992, gb = 0, tmb1 = 0, tmb2 = 0\<rparr>,
            r_sums_eingang = \<lparr>eup = 1, gb = 0, tmb1 = 0, tmb2 = 0\<rparr>,
            r_sums_ausgang = \<lparr>eup = 0, gb = 0, tmb1 = 0, tmb2 = 0\<rparr>\<rparr>"
  by (simp add: calculate_saldo_and_sums_def ex_big_def ex_empty_def get_partner_def
      collect_partner_entries_def partner_accounts_def account_entries_def ex_entry_def
      get_last_closure_before_def partner_closures_def seed_of_def or0_def
      loop_body_def me_of_def mult_of_def add_scaled_def add_quad_def quad0_def
      sort_newest_first_def sort_key_of_def fadd_def fmul_def fl_exact fl_first_inexact
      datetime_min_def)

subsection \<open>Ending balance, starting balance and movement\<close>

text \<open>
  C2, as the code has it. For an existing partner the calculator returns a result in which,
  in each of the four pallet categories, the ending balance is the float sum of the starting
  balance and the movement: the double nearest to their sum, and their sum whenever that is
  at most \<open>2 ^ 53\<close> in magnitude. The starting balance is the seed of the last closure with
  the signed quantities of the catch-up entries folded in.
\<close>

theorem saldo_end_is_start_plus_movement:
  assumes "get_partner s pid = Some p"
  shows "\<exists>r. calculate_saldo_and_sums s pid start_date end_date = Some r \<and>
     r_saldo_start r = fold_scaled (fst (seed s pid start_date))
        (filter (catch_up (snd (seed s pid start_date)) start_date)
           (collect_partner_entries s pid)) \<and>
     (\<forall>typ \<in> set categories.
        quad_field typ (r_saldo_end r) =
          fl (quad_field typ (r_saldo_start r) + quad_field typ (r_movement r)) \<and>
        (\<bar>quad_field typ (r_saldo_start r) + quad_field typ (r_movement r)\<bar> \<le> 2 ^ 53 \<longrightarrow>
           quad_field typ (r_saldo_end r) =
             quad_field typ (r_saldo_start r) + quad_field typ (r_movement r)))"
proof -
  from calculate_Some [OF assms, of start_date end_date]
  obtain r where r: "calculate_saldo_and_sums s pid start_date end_date = Some r"
    and st: "r_saldo_start r = fold_scaled (fst (seed s pid start_date))
        (filter (catch_up (snd (seed s pid start_date)) start_date)
           (collect_partner_entries s pid))"
    and en: "r_saldo_end r = add_quad (r_saldo_start r) (r_movement r)"
    by blast
  have "quad_field t (r_saldo_end r) =
          fl (quad_field t (r_saldo_start r) + quad_field t (r_movement r)) \<and>
        (\<bar>quad_field t (r_saldo_start r) + quad_field t (r_movement r)\<bar> \<le> 2 ^ 53 \<longrightarrow>
           quad_field t (r_saldo_end r) =
             quad_field t (r_saldo_start r) + quad_field t (r_movement r))" for t
    unfolding en quad_field_add_quad using fl_exact by simp
  with r st show ?thesis by blast
qed

theorem saldo_end_is_start_plus_movement_witness:
  "get_partner ex_db 1 = Some \<lparr>p_id = 1, p_name = ''P''\<rparr> \<and> ''GB'' \<in> set categories \<and>
   (\<exists>r. calculate_saldo_and_sums ex_db 1 ((2024, 3, 1), (0, 0, 0, 0))
          ((2024, 3, 31), (23, 59, 59, 0)) = Some r \<and>
        gb (r_saldo_start r) = 3 \<and> gb (r_movement r) = - 3 \<and>
        \<bar>gb (r_saldo_start r) + gb (r_movement r)\<bar> \<le> 2 ^ 53 \<and>
        gb (r_saldo_end r) = gb (r_saldo_start r) + gb (r_movement r) \<and>
        gb (r_saldo_end r) = 0)"
proof -
  have p: "get_partner ex_db 1 = Some \<lparr>p_id = 1, p_name = ''P''\<rparr>"
    by (simp add: get_partner_def ex_db_def ex_empty_def)
  have c: "''GB'' \<in> set categories" by (simp add: categories_def)
  have q: "quad_field ''GB'' = gb" by (simp add: quad_field_def)
  from saldo_end_is_start_plus_movement [OF p, of "((2024, 3, 1), (0, 0, 0, 0))"
      "((2024, 3, 31), (23, 59, 59, 0))"] c
  obtain r where r: "calculate_saldo_and_sums ex_db 1 ((2024, 3, 1), (0, 0, 0, 0))
          ((2024, 3, 31), (23, 59, 59, 0)) = Some r"
    and g: "\<bar>quad_field ''GB'' (r_saldo_start r) + quad_field ''GB'' (r_movement r)\<bar> \<le> 2 ^ 53 \<longrightarrow>
           quad_field ''GB'' (r_saldo_end r) =
             quad_field ''GB'' (r_saldo_start r) + quad_field ''GB'' (r_movement r)"
    by blast
  from r have "r_saldo_start r = \<lparr>eup = 6, gb = 3, tmb1 = 0, tmb2 = 0\<rparr>"
    "r_movement r = \<lparr>eup = 0, gb = - 3, tmb1 = 0, tmb2 = 0\<rparr>"
    unfolding ex_calculate by auto
  then have v: "gb (r_saldo_start r) = 3" "gb (r_movement r) = - 3"
    by simp_all
  then have b: "\<bar>gb (r_saldo_start r) + gb (r_movement r)\<bar> \<le> 2 ^ 53" by simp
  with g have e: "gb (r_saldo_end r) = gb (r_saldo_start r) + gb (r_movement r)"
    unfolding q by blast
  with v have z: "gb (r_saldo_end r) = 0" by simp
  from p c r v b e z show ?thesis by blast
qed

text \<open>
  The identity in the integers fails once a rounding occurs: with a starting balance of
  \<open>2 ^ 53\<close> pallets and a movement of 1, the ending balance is \<open>2 ^ 53\<close>.
\<close>

theorem saldo_end_rounded_counterexample:
  "get_partner ex_big 1 = Some \<lparr>p_id = 1, p_name = ''P''\<rparr> \<and>
   (\<exists>r. calculate_saldo_and_sums ex_big 1 ((2024, 3, 1), (0, 0, 0, 0))
          ((2024, 3, 31), (23, 59, 59, 0)) = Some r \<and>
        eup (r_saldo_start r) = 2 ^ 53 \<and> eup (r_movement r) = 1 \<and> eup (r_saldo_end r) = 2 ^ 53 \<and>
        eup (r_saldo_end r) \<noteq> eup (r_saldo_start r) + eup (r_movement r))"
proof -
  have "\<exists>r. calculate_saldo_and_sums ex_big 1 ((2024, 3, 1), (0, 0, 0, 0))
          ((2024, 3, 31), (23, 59, 59, 0)) = Some r \<and>
        eup (r_saldo_start r) = 2 ^ 53 \<and> eup (r_movement r) = 1 \<and> eup (r_saldo_end r) = 2 ^ 53 \<and>
        eup (r_saldo_end r) \<noteq> eup (r_saldo_start r) + eup (r_movement r)"
    unfolding ex_big_calculate by simp
  with ex_big_partner show ?thesis by blast
qed

subsection \<open>Catch-up entries\<close>

text \<open>
  C5, as the code has it. In the result of the calculator the starting balance is the seed
  with the signed quantities (quantity times direction multiplier) of the entries whose
  timestamp lies strictly between \<open>base_date\<close> (the seeding closure's \<open>period_end\<close>, or
  \<open>datetime.min\<close>) and the period's start added to it, one float addition per entry; this is
  the seed plus the sum of these signed quantities while the magnitudes involved sum up to at
  most \<open>2 ^ 53\<close>. The movement adds up the entries counted in the period only, and the
  returned entry list holds exactly those, so a catch-up entry is in neither.
\<close>

theorem catch_up_entries_fold_into_saldo_start:
  assumes "calculate_saldo_and_sums s pid start_date end_date = Some r"
      and "seed s pid start_date = (seed_saldo, base_date)"
      and "all_entries = collect_partner_entries s pid"
  shows "r_saldo_start r =
           fold_scaled seed_saldo (filter (catch_up base_date start_date) all_entries) \<and>
         r_movement r =
           fold_scaled quad0 (filter (in_period base_date start_date end_date) all_entries) \<and>
         set (r_entries r) = {e \<in> set all_entries. in_period base_date start_date end_date e} \<and>
         (\<forall>e. catch_up base_date start_date e \<longrightarrow>
              \<not> in_period base_date start_date end_date e \<and> e \<notin> set (r_entries r)) \<and>
         (\<forall>typ \<in> set categories.
            \<bar>quad_field typ seed_saldo\<bar> +
              (\<Sum>e\<leftarrow>filter (catch_up base_date start_date) all_entries.
                 \<bar>or0 (menge_field typ e)\<bar>) \<le> 2 ^ 53 \<longrightarrow>
            quad_field typ (r_saldo_start r) = quad_field typ seed_saldo +
              (\<Sum>e\<leftarrow>filter (catch_up base_date start_date) all_entries.
                 signed (menge_field typ) e))"
proof -
  obtain p where p: "get_partner s pid = Some p"
    using assms(1) by (cases "get_partner s pid") (simp_all add: calculate_None)
  from calculate_Some [OF p, of start_date end_date] assms
  have st: "r_saldo_start r =
        fold_scaled seed_saldo (filter (catch_up base_date start_date) all_entries)"
    and mv: "r_movement r =
        fold_scaled quad0 (filter (in_period base_date start_date end_date) all_entries)"
    and en: "set (r_entries r) = {e \<in> set all_entries. in_period base_date start_date end_date e}"
    by auto
  have f: "\<forall>e. catch_up base_date start_date e \<longrightarrow>
              \<not> in_period base_date start_date end_date e \<and> e \<notin> set (r_entries r)"
    using en catch_up_not_in_period by blast
  have x: "\<forall>typ \<in> set categories.
            \<bar>quad_field typ seed_saldo\<bar> +
              (\<Sum>e\<leftarrow>filter (catch_up base_date start_date) all_entries.
                 \<bar>or0 (menge_field typ e)\<bar>) \<le> 2 ^ 53 \<longrightarrow>
            quad_field typ (r_saldo_start r) = quad_field typ seed_saldo +
              (\<Sum>e\<leftarrow>filter (catch_up base_date start_date) all_entries.
                 signed (menge_field typ) e)"
    unfolding st using fold_scaled_exact by blast
  from st mv en f x show ?thesis by blast
qed

theorem catch_up_entries_fold_into_saldo_start_witness:
  "calculate_saldo_and_sums ex_db 1 ((2024, 3, 1), (0, 0, 0, 0)) ((2024, 3, 31), (23, 59, 59, 0)) \<noteq> None \<and>
   catch_up ((2024, 1, 31), (23, 59, 59, 0)) ((2024, 3, 1), (0, 0, 0, 0))
     (ex_entry 3 ''2024020501'' ((2024, 2, 5), (9, 0, 0, 0)) ''Eingang'' 0 3 0) \<and>
   ''GB'' \<in> set categories \<and>
   (\<exists>r. calculate_saldo_and_sums ex_db 1 ((2024, 3, 1), (0, 0, 0, 0))
          ((2024, 3, 31), (23, 59, 59, 0)) = Some r \<and>
        gb (r_saldo_start r) = 0 + 3 \<and>
        ex_entry 3 ''2024020501'' ((2024, 2, 5), (9, 0, 0, 0)) ''Eingang'' 0 3 0 \<notin> set (r_entries r))"
proof -
  let ?e3 = "ex_entry 3 ''2024020501'' ((2024, 2, 5), (9, 0, 0, 0)) ''Eingang'' 0 3 0"
  let ?r = "the (calculate_saldo_and_sums ex_db 1 ((2024, 3, 1), (0, 0, 0, 0))
          ((2024, 3, 31), (23, 59, 59, 0)))"
  let ?cu = "filter (catch_up ((2024, 1, 31), (23, 59, 59, 0)) ((2024, 3, 1), (0, 0, 0, 0)))
      (entries ex_db)"
  have r: "calculate_saldo_and_sums ex_db 1 ((2024, 3, 1), (0, 0, 0, 0))
          ((2024, 3, 31), (23, 59, 59, 0)) = Some ?r"
    unfolding ex_calculate by simp
  have cu: "catch_up ((2024, 1, 31), (23, 59, 59, 0)) ((2024, 3, 1), (0, 0, 0, 0)) ?e3"
    by (simp add: catch_up_def ex_entry_def)
  have c: "''GB'' \<in> set categories" by (simp add: categories_def)
  have flt: "?cu = [?e3]"
    by (simp add: catch_up_def ex_entry_def ex_db_def)
  have sm: "(\<Sum>e\<leftarrow>?cu. signed (menge_field ''GB'') e) = 3"
    unfolding flt by (simp add: signed_def or0_def mult_of_def ex_entry_def menge_field_def)
  have ab: "(\<Sum>e\<leftarrow>?cu. \<bar>or0 (menge_field ''GB'' e)\<bar>) = 3"
    unfolding flt by (simp add: or0_def ex_entry_def menge_field_def)
  have q: "quad_field ''GB'' \<lparr>eup = 6, gb = 0, tmb1 = 0, tmb2 = 0\<rparr> = 0"
    by (simp add: quad_field_def)
  have b: "\<bar>quad_field ''GB'' \<lparr>eup = 6, gb = 0, tmb1 = 0, tmb2 = 0\<rparr>\<bar> +
      (\<Sum>e\<leftarrow>?cu. \<bar>or0 (menge_field ''GB'' e)\<bar>) \<le> 2 ^ 53"
    unfolding ab q by simp
  from catch_up_entries_fold_into_saldo_start [OF r ex_seed ex_collect [symmetric]] c b
  have g: "quad_field ''GB'' (r_saldo_start ?r) =
        quad_field ''GB'' \<lparr>eup = 6, gb = 0, tmb1 = 0, tmb2 = 0\<rparr> +
        (\<Sum>e\<leftarrow>?cu. signed (menge_field ''GB'') e)"
    and n: "?e3 \<notin> set (r_entries ?r)"
    using cu by blast+
  have "gb (r_saldo_start ?r) = 0 + 3"
    using g unfolding sm q by (simp add: quad_field_def)
  with r cu c n show ?thesis by blast
qed

text \<open>
  A catch-up entry can leave the starting balance as it is: after an entry of \<open>2 ^ 53\<close>
  pallets a second catch-up entry of one pallet is absorbed by the rounding.
\<close>

theorem catch_up_absorbed_counterexample:
  "seed ex_big 1 ((2024, 3, 1), (0, 0, 0, 0)) = (quad0, datetime_min) \<and>
   filter (catch_up datetime_min ((2024, 3, 1), (0, 0, 0, 0))) (collect_partner_entries ex_big 1) =
     [ex_entry 1 ''2024020501'' ((2024, 2, 5), (9, 0, 0, 0)) ''Eingang'' 9007199254740992 0 0,
      ex_entry 2 ''2024021001'' ((2024, 2, 10), (9, 0, 0, 0)) ''Eingang'' 1 0 0] \<and>
   signed menge_eup (ex_entry 2 ''2024021001'' ((2024, 2, 10), (9, 0, 0, 0)) ''Eingang'' 1 0 0) = 1 \<and>
   (\<exists>r. calculate_saldo_and_sums ex_big 1 ((2024, 3, 1), (0, 0, 0, 0))
          ((2024, 3, 31), (23, 59, 59, 0)) = Some r \<and>
        eup (r_saldo_start r) = 2 ^ 53 \<and>
        eup (r_saldo_start r) \<noteq> eup quad0 + (2 ^ 53 + 1))"
proof -
  have f: "filter (catch_up datetime_min ((2024, 3, 1), (0, 0, 0, 0)))
      (collect_partner_entries ex_big 1) =
     [ex_entry 1 ''2024020501'' ((2024, 2, 5), (9, 0, 0, 0)) ''Eingang'' 9007199254740992 0 0,
      ex_entry 2 ''2024021001'' ((2024, 2, 10), (9, 0, 0, 0)) ''Eingang'' 1 0 0]"
    unfolding ex_big_collect
    by (simp add: ex_big_def catch_up_def ex_entry_def datetime_min_def)
  have g: "signed menge_eup
      (ex_entry 2 ''2024021001'' ((2024, 2, 10), (9, 0, 0, 0)) ''Eingang'' 1 0 0) = 1"
    by (simp add: signed_def or0_def mult_of_def ex_entry_def)
  have "\<exists>r. calculate_saldo_and_sums ex_big 1 ((2024, 3, 1), (0, 0, 0, 0))
          ((2024, 3, 31), (23, 59, 59, 0)) = Some r \<and>
        eup (r_saldo_start r) = 2 ^ 53 \<and>
        eup (r_saldo_start r) \<noteq> eup quad0 + (2 ^ 53 + 1)"
    unfolding ex_big_calculate by (simp add: quad0_def)
  with ex_big_seed f g show ?thesis by blast
qed


section \<open>Properties of the Entry Recorder\<close>

subsection \<open>When the handlers succeed, and what they persist\<close>

lemma new_entry_success:
  assumes "get_partner s pid = Some p" "partner_accounts s pid = a # as"
    "parse_datum now (f_datum form) = Some ud"
    "\<not> locked (last_close_of s pid) (combine ud (snd now))"
    "f_menge form = Some q" "richtung_db_of (f_richtung form) = Some r"
    "r = ''Eingang'' \<or> r = ''Ausgang'' \<and> re_search_d4 (f_kommentar form)"
  shows "new_entry s pid now form = Inr (s\<lparr>entries := entries s @ [new_entry_row s a now form ud q r]\<rparr>)"
proof -
  have pid: "p_id p = pid" using assms(1) by (rule get_partner_id)
  from assms(7) show ?thesis
    by (auto simp add: new_entry_def assms(1-6) pid Let_def new_entry_row_def)
qed

lemma new_entry_InrD:
  assumes "new_entry s pid now form = Inr s'"
  shows "\<exists>p a as ud q r. get_partner s pid = Some p \<and> partner_accounts s pid = a # as \<and>
    parse_datum now (f_datum form) = Some ud \<and>
    \<not> locked (last_close_of s pid) (combine ud (snd now)) \<and>
    f_menge form = Some q \<and> richtung_db_of (f_richtung form) = Some r \<and>
    (r = ''Eingang'' \<or> r = ''Ausgang'' \<and> re_search_d4 (f_kommentar form)) \<and>
    s' = s\<lparr>entries := entries s @ [new_entry_row s a now form ud q r]\<rparr>"
proof -
  obtain p where p: "get_partner s pid = Some p"
    using assms by (cases "get_partner s pid") (simp_all add: new_entry_def)
  have pid: "p_id p = pid" using p by (rule get_partner_id)
  obtain a as where a: "partner_accounts s pid = a # as"
    using assms p pid by (cases "partner_accounts s pid") (simp_all add: new_entry_def)
  obtain ud where ud: "parse_datum now (f_datum form) = Some ud"
    using assms p pid a by (cases "parse_datum now (f_datum form)") (simp_all add: new_entry_def)
  have l: "\<not> locked (last_close_of s pid) (combine ud (snd now))"
    using assms p pid a ud by (auto simp add: new_entry_def Let_def)
  obtain q where q: "f_menge form = Some q"
    using assms p pid a ud l by (cases "f_menge form") (simp_all add: new_entry_def Let_def)
  have n: "new_entry s pid now form =
      (let richtung_db = richtung_db_of (f_richtung form) in
          if richtung_db \<noteq> Some ''Eingang'' \<and> richtung_db \<noteq> Some ''Ausgang''
          then Inl InvalidDirection
          else if richtung_db = Some ''Ausgang'' \<and> \<not> re_search_d4 (f_kommentar form)
          then Inl MissingReferenceNumber
          else Inr (s\<lparr>entries := entries s @
                 [new_entry_row s a now form ud q (the richtung_db)]\<rparr>))"
    using p pid a ud l q by (auto simp add: new_entry_def Let_def new_entry_row_def)
  obtain r where r: "richtung_db_of (f_richtung form) = Some r"
    using assms n by (cases "richtung_db_of (f_richtung form)") (simp_all add: Let_def)
  have v: "r = ''Eingang'' \<or> r = ''Ausgang'' \<and> re_search_d4 (f_kommentar form)"
    using assms n r by (auto simp add: Let_def split: if_splits)
  have "s' = s\<lparr>entries := entries s @ [new_entry_row s a now form ud q r]\<rparr>"
    using assms n r v by (auto simp add: Let_def split: if_splits)
  with p a ud l q r v show ?thesis by blast
qed


lemma reaches_direction_checkD:
  assumes "reaches_direction_check s pid now form"
  shows "\<exists>p a as ud q. get_partner s pid = Some p \<and> partner_accounts s pid = a # as \<and>
    parse_datum now (f_datum form) = Some ud \<and>
    \<not> locked (last_close_of s pid) (combine ud (snd now)) \<and> f_menge form = Some q"
proof -
  obtain p where p: "get_partner s pid = Some p"
    using assms by (cases "get_partner s pid") (simp_all add: reaches_direction_check_def)
  from assms have a: "partner_accounts s pid \<noteq> []"
    and d: "(case parse_datum now (f_datum form) of None \<Rightarrow> False
       | Some user_date \<Rightarrow> \<not> locked (last_close_of s pid) (combine user_date (snd now)))"
    and q: "f_menge form \<noteq> None"
    by (simp_all add: reaches_direction_check_def)
  from a obtain a' as where "partner_accounts s pid = a' # as"
    by (cases "partner_accounts s pid") simp_all
  moreover from d obtain ud where "parse_datum now (f_datum form) = Some ud"
    "\<not> locked (last_close_of s pid) (combine ud (snd now))"
    by (cases "parse_datum now (f_datum form)") simp_all
  moreover from q obtain q' where "f_menge form = Some q'" by auto
  ultimately show ?thesis using p by blast
qed

lemma new_entry_after_checks:
  assumes "reaches_direction_check s pid now form"
  shows "new_entry s pid now form =
      (if richtung_db_of (f_richtung form) \<noteq> Some ''Eingang'' \<and>
          richtung_db_of (f_richtung form) \<noteq> Some ''Ausgang''
       then Inl InvalidDirection
       else if richtung_db_of (f_richtung form) = Some ''Ausgang'' \<and>
          \<not> re_search_d4 (f_kommentar form)
       then Inl MissingReferenceNumber
       else Inr (s\<lparr>entries := entries s @
              [new_entry_row s (hd (partner_accounts s pid)) now form
                 (the (parse_datum now (f_datum form))) (the (f_menge form))
                 (the (richtung_db_of (f_richtung form)))]\<rparr>))"
proof -
  from reaches_direction_checkD [OF assms] obtain p a as ud q
    where p: "get_partner s pid = Some p" and a: "partner_accounts s pid = a # as"
      and ud: "parse_datum now (f_datum form) = Some ud"
      and l: "\<not> locked (last_close_of s pid) (combine ud (snd now))"
      and q: "f_menge form = Some q"
    by blast
  have pid: "p_id p = pid" using p by (rule get_partner_id)
  show ?thesis
    using p pid a ud l q by (auto simp add: new_entry_def Let_def new_entry_row_def)
qed

lemma new_entry_Inr_reaches:
  assumes "new_entry s pid now form = Inr s'"
  shows "reaches_direction_check s pid now form"
proof -
  from new_entry_InrD [OF assms] obtain p a as ud q
    where p: "get_partner s pid = Some p" and a: "partner_accounts s pid = a # as"
      and ud: "parse_datum now (f_datum form) = Some ud"
      and l: "\<not> locked (last_close_of s pid) (combine ud (snd now))"
      and q: "f_menge form = Some q"
    by blast
  show ?thesis
    using p a ud l q by (simp add: reaches_direction_check_def)
qed

lemma correction_success:
  assumes "get_partner s pid = Some p" "partner_accounts s pid = a # as"
    "c_belegnummer form \<noteq> []" "c_kommentar form \<noteq> []"
    "parse_datum now (c_datum form) = Some ud"
    "find_original s pid (c_belegnummer form) = Some original"
    "original_locked (last_close_of s pid) original = Inr False"
    "c_menge form = Some q"
  shows "correction_entry s pid now form =
    Inr (s\<lparr>entries := entries s @ [correction_row s pid a now form ud original q]\<rparr>)"
proof -
  have pid: "p_id p = pid" using assms(1) by (rule get_partner_id)
  show ?thesis
    by (simp add: correction_entry_def assms pid Let_def correction_row_def)
qed

lemma correction_InrD:
  assumes "correction_entry s pid now form = Inr s'"
  shows "\<exists>p a as ud original q. get_partner s pid = Some p \<and> partner_accounts s pid = a # as \<and>
    c_belegnummer form \<noteq> [] \<and> c_kommentar form \<noteq> [] \<and>
    parse_datum now (c_datum form) = Some ud \<and>
    find_original s pid (c_belegnummer form) = Some original \<and>
    original_locked (last_close_of s pid) original = Inr False \<and>
    c_menge form = Some q \<and>
    s' = s\<lparr>entries := entries s @ [correction_row s pid a now form ud original q]\<rparr>"
proof -
  obtain p where p: "get_partner s pid = Some p"
    using assms by (cases "get_partner s pid") (simp_all add: correction_entry_def)
  have pid: "p_id p = pid" using p by (rule get_partner_id)
  obtain a as where a: "partner_accounts s pid = a # as"
    using assms p pid by (cases "partner_accounts s pid") (simp_all add: correction_entry_def)
  have b: "c_belegnummer form \<noteq> []"
    using assms p pid a by (auto simp add: correction_entry_def)
  have k: "c_kommentar form \<noteq> []"
    using assms p pid a b by (auto simp add: correction_entry_def)
  obtain ud where ud: "parse_datum now (c_datum form) = Some ud"
    using assms p pid a b k
    by (cases "parse_datum now (c_datum form)") (simp_all add: correction_entry_def)
  obtain original where o: "find_original s pid (c_belegnummer form) = Some original"
    using assms p pid a b k ud
    by (cases "find_original s pid (c_belegnummer form)")
       (simp_all add: correction_entry_def Let_def)
  have l: "original_locked (last_close_of s pid) original = Inr False"
  proof (cases "original_locked (last_close_of s pid) original")
    case (Inl e)
    then show ?thesis
      using assms p pid a b k ud o by (simp add: correction_entry_def Let_def)
  next
    case (Inr v)
    then show ?thesis
      using assms p pid a b k ud o by (cases v) (simp_all add: correction_entry_def Let_def)
  qed
  obtain q where q: "c_menge form = Some q"
    using assms p pid a b k ud o l
    by (cases "c_menge form") (simp_all add: correction_entry_def Let_def)
  have "s' = s\<lparr>entries := entries s @ [correction_row s pid a now form ud original q]\<rparr>"
    using assms correction_success [OF p a b k ud o l q] by simp
  with p a b k ud o l q show ?thesis by blast
qed

lemma correction_validD:
  assumes "correction_valid s pid now form"
  shows "\<exists>p a as ud original q. get_partner s pid = Some p \<and> partner_accounts s pid = a # as \<and>
    c_belegnummer form \<noteq> [] \<and> c_kommentar form \<noteq> [] \<and>
    parse_datum now (c_datum form) = Some ud \<and>
    find_original s pid (c_belegnummer form) = Some original \<and>
    original_locked (last_close_of s pid) original = Inr False \<and>
    c_menge form = Some q"
proof -
  obtain p where p: "get_partner s pid = Some p"
    using assms by (cases "get_partner s pid") (simp_all add: correction_valid_def)
  from assms have a: "partner_accounts s pid \<noteq> []"
    and b: "c_belegnummer form \<noteq> []" and k: "c_kommentar form \<noteq> []"
    and d: "parse_datum now (c_datum form) \<noteq> None"
    and o: "(case find_original s pid (c_belegnummer form) of None \<Rightarrow> False
       | Some original \<Rightarrow> original_locked (last_close_of s pid) original = Inr False)"
    and q: "c_menge form \<noteq> None"
    by (simp_all add: correction_valid_def)
  from a obtain a' as where "partner_accounts s pid = a' # as"
    by (cases "partner_accounts s pid") simp_all
  moreover from d obtain ud where "parse_datum now (c_datum form) = Some ud" by auto
  moreover from o obtain original where "find_original s pid (c_belegnummer form) = Some original"
    "original_locked (last_close_of s pid) original = Inr False"
    by (cases "find_original s pid (c_belegnummer form)") simp_all
  moreover from q obtain q' where "c_menge form = Some q'" by auto
  ultimately show ?thesis using p b k by blast
qed


subsection \<open>The reference-number check\<close>

lemma long_digit_prefix:
  assumes "4 \<le> length run" "list_all is_digit run"
  shows "4 \<le> length (takeWhile is_digit (run @ post))"
proof -
  have "takeWhile is_digit (run @ post) = run @ takeWhile is_digit post"
    using assms(2) by (simp add: list_all_iff)
  then show ?thesis using assms(1) by simp
qed

lemma digit_run_found: "re_search_d4 (pre @ run @ post)"
  if "4 \<le> length run" "list_all is_digit run"
proof (induction pre)
  case Nil
  from that have "run \<noteq> []" by auto
  then obtain c cs where "run @ post = c # cs" by (cases run) auto
  with long_digit_prefix [OF that, of post] show ?case by (simp del: takeWhile.simps)
next
  case (Cons x pre)
  then show ?case by simp
qed

lemma re_search_d4_run: "re_search_d4 s \<Longrightarrow> has_digit_run s"
proof (induction s)
  case Nil
  then show ?case by simp
next
  case (Cons c cs)
  show ?case
  proof (cases "4 \<le> length (takeWhile is_digit (c # cs))")
    case True
    have "c # cs = [] @ takeWhile is_digit (c # cs) @ dropWhile is_digit (c # cs)"
      by simp
    moreover have "list_all is_digit (takeWhile is_digit (c # cs))"
      by (simp only: list_all_iff) (meson set_takeWhileD)
    ultimately show ?thesis
      unfolding has_digit_run_def using True by blast
  next
    case False
    with Cons.prems have "re_search_d4 cs" by (simp del: takeWhile.simps)
    from Cons.IH [OF this] obtain pre run post
      where "cs = pre @ run @ post" "4 \<le> length run" "list_all is_digit run"
      unfolding has_digit_run_def by blast
    then have "c # cs = (c # pre) @ run @ post \<and> 4 \<le> length run \<and> list_all is_digit run"
      by simp
    then show ?thesis unfolding has_digit_run_def by blast
  qed
qed

lemma re_search_d4_iff: "re_search_d4 s \<longleftrightarrow> has_digit_run s"
proof
  assume "re_search_d4 s"
  then show "has_digit_run s" by (rule re_search_d4_run)
next
  assume "has_digit_run s"
  then obtain pre run post
    where "s = pre @ run @ post" "4 \<le> length run" "list_all is_digit run"
    unfolding has_digit_run_def by blast
  then show "re_search_d4 s" using digit_run_found by simp
qed


subsection \<open>Concrete facts about the small store\<close>

lemma ex_partner: "get_partner ex_db 1 = Some \<lparr>p_id = 1, p_name = ''P''\<rparr>"
  by (simp add: get_partner_def ex_db_def ex_empty_def)

lemma ex_accounts: "partner_accounts ex_db 1 = [\<lparr>a_id = 1, a_partner_id = Some 1\<rparr>]"
  by (simp add: partner_accounts_def ex_db_def ex_empty_def)

lemma ex_last_close: "last_close_of ex_db 1 = Some ex_closure"
  by (simp add: last_close_of_def partner_closures_def ex_db_def ex_empty_def ex_closure_def)

lemma ex_reaches:
  "reaches_direction_check ex_db 1 ex_now (ex_form r t (Some q) k (2024, 3, 15))"
  unfolding reaches_direction_check_def ex_partner ex_accounts ex_last_close
  by (simp add: ex_form_def parse_datum_def locked_def combine_def ex_closure_def ex_now_def)

lemma ex_aus: "richtung_db_of (Some ''aus'') = Some ''Ausgang''"
  by (simp add: richtung_db_of_def upper_def upper_char_def)

lemma ex_no_run: "\<not> has_digit_run ''no numbers here''"
  unfolding re_search_d4_iff [symmetric] by (simp add: is_digit_def)

lemma ex_run: "has_digit_run ''ref 1234''"
  unfolding re_search_d4_iff [symmetric] by (simp add: is_digit_def)

subsection \<open>Direction and reference number\<close>

lemma new_entry_locked:
  assumes "get_partner s pid = Some p" "partner_accounts s pid = a # as"
    "parse_datum now (f_datum form) = Some ud"
    "locked (last_close_of s pid) (combine ud (snd now))"
  shows "new_entry s pid now form = Inl ClosureLocked"
proof -
  have pid: "p_id p = pid" using assms(1) by (rule get_partner_id)
  show ?thesis by (simp add: new_entry_def assms pid Let_def)
qed

lemma new_entry_invalid_quantity:
  assumes "get_partner s pid = Some p" "partner_accounts s pid = a # as"
    "parse_datum now (f_datum form) = Some ud"
    "\<not> locked (last_close_of s pid) (combine ud (snd now))"
    "f_menge form = None"
  shows "new_entry s pid now form = Inl InvalidQuantity"
proof -
  have pid: "p_id p = pid" using assms(1) by (rule get_partner_id)
  show ?thesis by (simp add: new_entry_def assms pid Let_def)
qed

lemma first_failure_None:
  "first_failure s pid now form = None \<longleftrightarrow> reaches_direction_check s pid now form"
  by (cases "parse_datum now (f_datum form)")
     (simp_all add: first_failure_def reaches_direction_check_def)

lemma new_entry_first_failure:
  assumes "first_failure s pid now form = Some e"
  shows "new_entry s pid now form = Inl e"
proof (cases "get_partner s pid")
  case None
  with assms show ?thesis by (simp add: first_failure_def new_entry_def)
next
  case (Some p)
  have pid: "p_id p = pid" using Some by (rule get_partner_id)
  show ?thesis
  proof (cases "partner_accounts s pid")
    case Nil
    with assms Some pid show ?thesis by (simp add: first_failure_def new_entry_def)
  next
    case (Cons a as)
    show ?thesis
    proof (cases "parse_datum now (f_datum form)")
      case None
      with assms Some pid Cons show ?thesis by (simp add: first_failure_def new_entry_def)
    next
      case ud: (Some ud)
      show ?thesis
      proof (cases "locked (last_close_of s pid) (combine ud (snd now))")
        case True
        with assms Some Cons ud have "e = ClosureLocked" by (simp add: first_failure_def)
        with new_entry_locked [OF Some Cons ud True] show ?thesis by simp
      next
        case False
        with assms Some Cons ud have q: "f_menge form = None" and e: "e = InvalidQuantity"
          by (simp_all add: first_failure_def split: if_splits)
        from new_entry_invalid_quantity [OF Some Cons ud False q] e show ?thesis by simp
      qed
    qed
  qed
qed

lemma ex_first_failure:
  "first_failure ex_db 1 ex_now (ex_form r t (Some q) k (2024, 3, 15)) = None"
  "first_failure ex_db 1 ex_now (ex_form r t None k (2024, 3, 15)) = Some InvalidQuantity"
  "first_failure ex_db 1 ex_now (ex_form r t mq k (2024, 1, 15)) = Some ClosureLocked"
  unfolding first_failure_def ex_partner ex_accounts ex_last_close
  by (simp_all add: ex_form_def parse_datum_def locked_def combine_def ex_closure_def ex_now_def)

text \<open>
  C8, as the code has it. A call with direction Ausgang whose comment holds no run of four
  digits fails and persists nothing. Its failure is that of the first check that fails
  among the checks that come first (partner, account, date, closure lock, quantity, in this
  order), and MissingReferenceNumber when all of these pass. With such a run in the comment
  the call fails in the same way on the checks that come first, and when they pass it
  succeeds and persists one Ausgang entry.
\<close>

theorem ausgang_needs_reference_number:
  assumes "richtung_db_of (f_richtung form) = Some ''Ausgang''"
  shows "(\<not> has_digit_run (f_kommentar form) \<longrightarrow>
            new_entry s pid now form =
              Inl (case first_failure s pid now form of
                     Some e \<Rightarrow> e | None \<Rightarrow> MissingReferenceNumber)) \<and>
         (has_digit_run (f_kommentar form) \<longrightarrow>
            (case first_failure s pid now form of
               Some e \<Rightarrow> new_entry s pid now form = Inl e
             | None \<Rightarrow>
                 (\<exists>e. new_entry s pid now form = Inr (s\<lparr>entries := entries s @ [e]\<rparr>) \<and>
                    richtung e = Some ''Ausgang'' \<and> kommentar e = Some (f_kommentar form))))"
proof (intro conjI impI)
  assume n: "\<not> has_digit_run (f_kommentar form)"
  show "new_entry s pid now form =
      Inl (case first_failure s pid now form of Some e \<Rightarrow> e | None \<Rightarrow> MissingReferenceNumber)"
  proof (cases "first_failure s pid now form")
    case None
    then have r: "reaches_direction_check s pid now form" by (simp add: first_failure_None)
    from n have "\<not> re_search_d4 (f_kommentar form)" by (simp add: re_search_d4_iff)
    then show ?thesis
      by (simp add: new_entry_after_checks [OF r] assms None)
  next
    case (Some e)
    from new_entry_first_failure [OF Some] Some show ?thesis by simp
  qed
next
  assume h: "has_digit_run (f_kommentar form)"
  show "case first_failure s pid now form of
      Some e \<Rightarrow> new_entry s pid now form = Inl e
    | None \<Rightarrow>
        (\<exists>e. new_entry s pid now form = Inr (s\<lparr>entries := entries s @ [e]\<rparr>) \<and>
           richtung e = Some ''Ausgang'' \<and> kommentar e = Some (f_kommentar form))"
  proof (cases "first_failure s pid now form")
    case None
    then have r: "reaches_direction_check s pid now form" by (simp add: first_failure_None)
    from h have h': "re_search_d4 (f_kommentar form)" by (simp add: re_search_d4_iff)
    let ?e = "new_entry_row s (hd (partner_accounts s pid)) now form
                (the (parse_datum now (f_datum form))) (the (f_menge form)) ''Ausgang''"
    have "new_entry s pid now form = Inr (s\<lparr>entries := entries s @ [?e]\<rparr>)"
      by (simp add: new_entry_after_checks [OF r] assms h')
    moreover have "richtung ?e = Some ''Ausgang''" "kommentar ?e = Some (f_kommentar form)"
      by (simp_all add: new_entry_row_def)
    ultimately have "\<exists>e. new_entry s pid now form = Inr (s\<lparr>entries := entries s @ [e]\<rparr>) \<and>
        richtung e = Some ''Ausgang'' \<and> kommentar e = Some (f_kommentar form)"
      by blast
    with None show ?thesis by simp
  next
    case (Some e)
    from new_entry_first_failure [OF Some] Some show ?thesis by simp
  qed
qed

theorem ausgang_needs_reference_number_witness:
  "richtung_db_of (f_richtung (ex_form ''aus'' ''EUP'' (Some 4) ''no numbers here'' (2024, 3, 15)))
      = Some ''Ausgang'' \<and>
   \<not> has_digit_run ''no numbers here'' \<and> has_digit_run ''ref 1234'' \<and>
   new_entry ex_db 1 ex_now (ex_form ''aus'' ''EUP'' (Some 4) ''no numbers here'' (2024, 3, 15))
      = Inl MissingReferenceNumber \<and>
   new_entry ex_db 1 ex_now (ex_form ''aus'' ''EUP'' (Some 4) ''no numbers here'' (2024, 1, 15))
      = Inl ClosureLocked \<and>
   new_entry ex_db 1 ex_now (ex_form ''aus'' ''EUP'' None ''ref 1234'' (2024, 3, 15))
      = Inl InvalidQuantity \<and>
   (\<exists>e. new_entry ex_db 1 ex_now (ex_form ''aus'' ''EUP'' (Some 4) ''ref 1234'' (2024, 3, 15))
          = Inr (ex_db\<lparr>entries := entries ex_db @ [e]\<rparr>) \<and>
        richtung e = Some ''Ausgang'')"
proof -
  let ?bad = "ex_form ''aus'' ''EUP'' (Some 4) ''no numbers here'' (2024, 3, 15)"
  let ?late = "ex_form ''aus'' ''EUP'' (Some 4) ''no numbers here'' (2024, 1, 15)"
  let ?noq = "ex_form ''aus'' ''EUP'' None ''ref 1234'' (2024, 3, 15)"
  let ?good = "ex_form ''aus'' ''EUP'' (Some 4) ''ref 1234'' (2024, 3, 15)"
  have d: "richtung_db_of (f_richtung ?bad) = Some ''Ausgang''"
    "richtung_db_of (f_richtung ?late) = Some ''Ausgang''"
    "richtung_db_of (f_richtung ?noq) = Some ''Ausgang''"
    "richtung_db_of (f_richtung ?good) = Some ''Ausgang''"
    by (simp_all add: ex_form_def ex_aus)
  have k: "\<not> has_digit_run (f_kommentar ?bad)" "\<not> has_digit_run (f_kommentar ?late)"
    "has_digit_run (f_kommentar ?noq)" "has_digit_run (f_kommentar ?good)"
    by (simp_all add: ex_form_def ex_no_run ex_run)
  from ausgang_needs_reference_number [OF d(1), of ex_db 1 ex_now] k(1)
  have a: "new_entry ex_db 1 ex_now ?bad = Inl MissingReferenceNumber"
    unfolding ex_first_failure by simp
  from ausgang_needs_reference_number [OF d(2), of ex_db 1 ex_now] k(2)
  have b: "new_entry ex_db 1 ex_now ?late = Inl ClosureLocked"
    unfolding ex_first_failure by simp
  from ausgang_needs_reference_number [OF d(3), of ex_db 1 ex_now] k(3)
  have c: "new_entry ex_db 1 ex_now ?noq = Inl InvalidQuantity"
    unfolding ex_first_failure by simp
  from ausgang_needs_reference_number [OF d(4), of ex_db 1 ex_now] k(4)
  have e: "\<exists>e. new_entry ex_db 1 ex_now ?good = Inr (ex_db\<lparr>entries := entries ex_db @ [e]\<rparr>) \<and>
        richtung e = Some ''Ausgang''"
    unfolding ex_first_failure by auto
  from d(1) ex_no_run ex_run a b c e show ?thesis by blast
qed

text \<open>
  The claim as stated fails where an earlier check fails: direction Ausgang, no digits in
  the comment, and a quantity that is not a number give InvalidQuantity.
\<close>

theorem ausgang_bad_quantity_counterexample:
  "richtung_db_of (f_richtung (ex_form ''aus'' ''EUP'' None ''no numbers here'' (2024, 3, 15)))
      = Some ''Ausgang'' \<and>
   \<not> has_digit_run (f_kommentar (ex_form ''aus'' ''EUP'' None ''no numbers here'' (2024, 3, 15))) \<and>
   new_entry ex_db 1 ex_now (ex_form ''aus'' ''EUP'' None ''no numbers here'' (2024, 3, 15))
      = Inl InvalidQuantity \<and>
   new_entry ex_db 1 ex_now (ex_form ''aus'' ''EUP'' None ''no numbers here'' (2024, 3, 15))
      \<noteq> Inl MissingReferenceNumber"
proof -
  let ?f = "ex_form ''aus'' ''EUP'' None ''no numbers here'' (2024, 3, 15)"
  have d: "richtung_db_of (f_richtung ?f) = Some ''Ausgang''"
    by (simp add: ex_form_def ex_aus)
  have k: "\<not> has_digit_run (f_kommentar ?f)"
    by (simp add: ex_form_def ex_no_run)
  have ud: "parse_datum ex_now (f_datum ?f) = Some (2024, 3, 15)"
    by (simp add: ex_form_def parse_datum_def)
  have l: "\<not> locked (last_close_of ex_db 1) (combine (2024, 3, 15) (snd ex_now))"
    unfolding ex_last_close by (simp add: locked_def combine_def ex_closure_def ex_now_def)
  have q: "f_menge ?f = None"
    by (simp add: ex_form_def)
  have n: "new_entry ex_db 1 ex_now ?f = Inl InvalidQuantity"
    by (rule new_entry_invalid_quantity [OF ex_partner ex_accounts ud l q])
  from d k n show ?thesis by simp
qed

text \<open>
  C9, as the code has it. A call whose direction maps to neither Eingang nor Ausgang fails
  and persists nothing. Its failure is that of the first check that fails among the checks
  that come first (PartnerNotFound, NoAccount, InvalidDate, ClosureLocked for a locked date,
  InvalidQuantity for a quantity that does not parse, in this order), and InvalidDirection
  exactly when all of these pass.
\<close>

theorem invalid_direction_rejected:
  assumes "richtung_db_of (f_richtung form) \<noteq> Some ''Eingang''"
      and "richtung_db_of (f_richtung form) \<noteq> Some ''Ausgang''"
  shows "new_entry s pid now form =
           Inl (case first_failure s pid now form of
                  Some e \<Rightarrow> e | None \<Rightarrow> InvalidDirection) \<and>
         (new_entry s pid now form = Inl InvalidDirection \<longleftrightarrow>
            first_failure s pid now form = None)"
proof -
  have a: "new_entry s pid now form =
      Inl (case first_failure s pid now form of Some e \<Rightarrow> e | None \<Rightarrow> InvalidDirection)"
  proof (cases "first_failure s pid now form")
    case None
    then have r: "reaches_direction_check s pid now form" by (simp add: first_failure_None)
    show ?thesis
      by (simp add: new_entry_after_checks [OF r] assms None)
  next
    case (Some e)
    from new_entry_first_failure [OF Some] Some show ?thesis by simp
  qed
  have "first_failure s pid now form \<noteq> Some InvalidDirection"
    by (simp add: first_failure_def split: option.splits)
  with a have "new_entry s pid now form = Inl InvalidDirection \<longleftrightarrow>
      first_failure s pid now form = None"
    by (cases "first_failure s pid now form") auto
  with a show ?thesis by blast
qed

theorem invalid_direction_rejected_witness:
  "richtung_db_of (f_richtung (ex_form ''quer'' ''EUP'' (Some 4) ''ref 1234'' (2024, 3, 15)))
      \<noteq> Some ''Eingang'' \<and>
   richtung_db_of (f_richtung (ex_form ''quer'' ''EUP'' (Some 4) ''ref 1234'' (2024, 3, 15)))
      \<noteq> Some ''Ausgang'' \<and>
   new_entry ex_db 1 ex_now (ex_form ''quer'' ''EUP'' (Some 4) ''ref 1234'' (2024, 3, 15))
      = Inl InvalidDirection \<and>
   new_entry ex_db 1 ex_now (ex_form ''quer'' ''EUP'' (Some 4) ''ref 1234'' (2024, 1, 15))
      = Inl ClosureLocked \<and>
   new_entry ex_db 1 ex_now (ex_form ''quer'' ''EUP'' None ''ref 1234'' (2024, 3, 15))
      = Inl InvalidQuantity"
proof -
  let ?f = "ex_form ''quer'' ''EUP'' (Some 4) ''ref 1234'' (2024, 3, 15)"
  let ?late = "ex_form ''quer'' ''EUP'' (Some 4) ''ref 1234'' (2024, 1, 15)"
  let ?noq = "ex_form ''quer'' ''EUP'' None ''ref 1234'' (2024, 3, 15)"
  have d: "richtung_db_of (f_richtung ?f) \<noteq> Some ''Eingang''"
    "richtung_db_of (f_richtung ?f) \<noteq> Some ''Ausgang''"
    by (simp_all add: ex_form_def richtung_db_of_def upper_def upper_char_def)
  have d': "richtung_db_of (f_richtung ?late) \<noteq> Some ''Eingang''"
    "richtung_db_of (f_richtung ?late) \<noteq> Some ''Ausgang''"
    by (simp_all add: ex_form_def richtung_db_of_def upper_def upper_char_def)
  have d'': "richtung_db_of (f_richtung ?noq) \<noteq> Some ''Eingang''"
    "richtung_db_of (f_richtung ?noq) \<noteq> Some ''Ausgang''"
    by (simp_all add: ex_form_def richtung_db_of_def upper_def upper_char_def)
  from invalid_direction_rejected [OF d, of ex_db 1 ex_now]
  have a: "new_entry ex_db 1 ex_now ?f = Inl InvalidDirection"
    unfolding ex_first_failure by simp
  from invalid_direction_rejected [OF d', of ex_db 1 ex_now]
  have b: "new_entry ex_db 1 ex_now ?late = Inl ClosureLocked"
    unfolding ex_first_failure by simp
  from invalid_direction_rejected [OF d'', of ex_db 1 ex_now]
  have c: "new_entry ex_db 1 ex_now ?noq = Inl InvalidQuantity"
    unfolding ex_first_failure by simp
  from d a b c show ?thesis by blast
qed

text \<open>
  The claim as stated fails where an earlier check fails: an unknown direction with a date
  in the closed month gives ClosureLocked.
\<close>

theorem invalid_direction_locked_counterexample:
  "richtung_db_of (f_richtung (ex_form ''quer'' ''EUP'' (Some 4) ''ref 1234'' (2024, 1, 15)))
      \<noteq> Some ''Eingang'' \<and>
   richtung_db_of (f_richtung (ex_form ''quer'' ''EUP'' (Some 4) ''ref 1234'' (2024, 1, 15)))
      \<noteq> Some ''Ausgang'' \<and>
   new_entry ex_db 1 ex_now (ex_form ''quer'' ''EUP'' (Some 4) ''ref 1234'' (2024, 1, 15))
      = Inl ClosureLocked \<and>
   new_entry ex_db 1 ex_now (ex_form ''quer'' ''EUP'' (Some 4) ''ref 1234'' (2024, 1, 15))
      \<noteq> Inl InvalidDirection"
proof -
  let ?f = "ex_form ''quer'' ''EUP'' (Some 4) ''ref 1234'' (2024, 1, 15)"
  have d: "richtung_db_of (f_richtung ?f) \<noteq> Some ''Eingang''"
    "richtung_db_of (f_richtung ?f) \<noteq> Some ''Ausgang''"
    by (simp_all add: ex_form_def richtung_db_of_def upper_def upper_char_def)
  have ud: "parse_datum ex_now (f_datum ?f) = Some (2024, 1, 15)"
    by (simp add: ex_form_def parse_datum_def)
  have l: "locked (last_close_of ex_db 1) (combine (2024, 1, 15) (snd ex_now))"
    unfolding ex_last_close by (simp add: locked_def combine_def ex_closure_def ex_now_def)
  have n: "new_entry ex_db 1 ex_now ?f = Inl ClosureLocked"
    by (rule new_entry_locked [OF ex_partner ex_accounts ud l])
  from d n show ?thesis by simp
qed


subsection \<open>Queries that pick the first row of a descending order\<close>


lemma first_desc_None: "first_desc key xs = None \<longleftrightarrow> xs = []"
  by (cases xs) (auto split: option.splits if_splits)

lemma first_desc_max: "first_desc key xs = Some y \<Longrightarrow> x \<in> set xs \<Longrightarrow> key x \<le> key y"
proof (induction xs arbitrary: y)
  case Nil
  then show ?case by simp
next
  case (Cons z zs)
  show ?case
  proof (cases "first_desc key zs")
    case None
    then have "zs = []" by (simp add: first_desc_None)
    with Cons.prems None show ?thesis by simp
  next
    case (Some w)
    with Cons show ?thesis by (fastforce split: if_splits)
  qed
qed



subsection \<open>Category and sign\<close>

lemma distribute_unknown: "typ \<notin> set (map Some categories) \<Longrightarrow> distribute typ q = quad0"
  by (auto simp: distribute_def categories_def)

lemma distribute_known:
  assumes "typ \<in> set categories"
  shows "or0 (menge_field typ
      (e\<lparr>menge_eup := Some (eup (distribute (Some typ) q)),
         menge_gb := Some (gb (distribute (Some typ) q)),
         menge_tmb1 := Some (tmb1 (distribute (Some typ) q)),
         menge_tmb2 := Some (tmb2 (distribute (Some typ) q))\<rparr>)) = q"
  using assms by (auto simp: distribute_def categories_def menge_field_def quad0_def or0_def)


lemma ex_original:
  "find_original ex_db 1 ''2024031001'' =
     Some (ex_entry 4 ''2024031001'' ((2024, 3, 10), (9, 0, 0, 0)) ''Ausgang'' 0 5 0)"
  by (simp add: find_original_def beleg_group_def of_partner_def ex_db_def ex_empty_def
      ex_entry_def)

lemma ex_original_unlocked:
  "original_locked (last_close_of ex_db 1)
     (ex_entry 4 ''2024031001'' ((2024, 3, 10), (9, 0, 0, 0)) ''Ausgang'' 0 5 0) = Inr False"
  unfolding ex_last_close by (simp add: original_locked_def ex_entry_def ex_closure_def)

lemma correction_validI:
  assumes "get_partner s pid = Some p" "partner_accounts s pid = a # as"
    "c_belegnummer form \<noteq> []" "c_kommentar form \<noteq> []"
    "parse_datum now (c_datum form) = Some ud"
    "find_original s pid (c_belegnummer form) = Some original"
    "original_locked (last_close_of s pid) original = Inr False"
    "c_menge form = Some q"
  shows "correction_valid s pid now form"
  by (simp add: correction_valid_def assms)

lemma ex_correction_valid:
  "correction_valid ex_db 1 ex_now (ex_cform ''2024031001'' t (Some q) d)"
proof -
  let ?c = "ex_cform ''2024031001'' t (Some q) d"
  have b: "c_belegnummer ?c = ''2024031001''"
    by (simp add: ex_cform_def)
  have f: "c_belegnummer ?c \<noteq> []" "c_kommentar ?c \<noteq> []"
    "parse_datum ex_now (c_datum ?c) = Some d" "c_menge ?c = Some q"
    by (simp_all add: ex_cform_def parse_datum_def)
  have o: "find_original ex_db 1 (c_belegnummer ?c) =
      Some (ex_entry 4 ''2024031001'' ((2024, 3, 10), (9, 0, 0, 0)) ''Ausgang'' 0 5 0)"
    unfolding b by (rule ex_original)
  show ?thesis
    by (rule correction_validI [OF ex_partner ex_accounts f(1,2,3) o ex_original_unlocked f(4)])
qed

text \<open>
  C10. A call of either write path that passes all validations with a category outside
  EUP, GB, TMB1, TMB2 (or with none) reports no error: it persists an entry whose four
  quantity fields are all 0.
\<close>

theorem unknown_category_books_zero:
  assumes "typ \<notin> set (map Some categories)"
  shows "(entry_valid s pid now form \<and> f_typ form = typ \<longrightarrow>
            (\<exists>e. new_entry s pid now form = Inr (s\<lparr>entries := entries s @ [e]\<rparr>) \<and>
                 menge_eup e = Some 0 \<and> menge_gb e = Some 0 \<and>
                 menge_tmb1 e = Some 0 \<and> menge_tmb2 e = Some 0)) \<and>
         (correction_valid s pid now cform \<and> c_typ cform = typ \<longrightarrow>
            (\<exists>e. correction_entry s pid now cform = Inr (s\<lparr>entries := entries s @ [e]\<rparr>) \<and>
                 menge_eup e = Some 0 \<and> menge_gb e = Some 0 \<and>
                 menge_tmb1 e = Some 0 \<and> menge_tmb2 e = Some 0))"
proof (intro conjI impI)
  assume "entry_valid s pid now form \<and> f_typ form = typ"
  then have r: "reaches_direction_check s pid now form"
    and d: "richtung_db_of (f_richtung form) = Some ''Eingang'' \<or>
       richtung_db_of (f_richtung form) = Some ''Ausgang'' \<and> re_search_d4 (f_kommentar form)"
    and t: "f_typ form = typ"
    by (simp_all add: entry_valid_def)
  let ?e = "new_entry_row s (hd (partner_accounts s pid)) now form
     (the (parse_datum now (f_datum form))) (the (f_menge form))
     (the (richtung_db_of (f_richtung form)))"
  from d have "new_entry s pid now form = Inr (s\<lparr>entries := entries s @ [?e]\<rparr>)"
    by (auto simp add: new_entry_after_checks [OF r])
  moreover have "menge_eup ?e = Some 0" "menge_gb ?e = Some 0"
    "menge_tmb1 ?e = Some 0" "menge_tmb2 ?e = Some 0"
    by (simp_all add: new_entry_row_def t distribute_unknown [OF assms] quad0_def)
  ultimately show "\<exists>e. new_entry s pid now form = Inr (s\<lparr>entries := entries s @ [e]\<rparr>) \<and>
      menge_eup e = Some 0 \<and> menge_gb e = Some 0 \<and> menge_tmb1 e = Some 0 \<and> menge_tmb2 e = Some 0"
    by blast
next
  assume "correction_valid s pid now cform \<and> c_typ cform = typ"
  then have v: "correction_valid s pid now cform" and t: "c_typ cform = typ" by simp_all
  from correction_validD [OF v] obtain p a as ud original q
    where c: "get_partner s pid = Some p" "partner_accounts s pid = a # as"
      "c_belegnummer cform \<noteq> []" "c_kommentar cform \<noteq> []"
      "parse_datum now (c_datum cform) = Some ud"
      "find_original s pid (c_belegnummer cform) = Some original"
      "original_locked (last_close_of s pid) original = Inr False"
      "c_menge cform = Some q"
    by blast
  let ?e = "correction_row s pid a now cform ud original q"
  have "correction_entry s pid now cform = Inr (s\<lparr>entries := entries s @ [?e]\<rparr>)"
    by (rule correction_success [OF c])
  moreover have "menge_eup ?e = Some 0" "menge_gb ?e = Some 0"
    "menge_tmb1 ?e = Some 0" "menge_tmb2 ?e = Some 0"
    by (simp_all add: correction_row_def t distribute_unknown [OF assms] quad0_def)
  ultimately show "\<exists>e. correction_entry s pid now cform =
      Inr (s\<lparr>entries := entries s @ [e]\<rparr>) \<and>
      menge_eup e = Some 0 \<and> menge_gb e = Some 0 \<and> menge_tmb1 e = Some 0 \<and> menge_tmb2 e = Some 0"
    by blast
qed

theorem unknown_category_books_zero_witness:
  "Some ''EUR'' \<notin> set (map Some categories) \<and>
   entry_valid ex_db 1 ex_now (ex_form ''ein'' ''EUR'' (Some 7) ''ohne'' (2024, 3, 15)) \<and>
   (\<exists>e. new_entry ex_db 1 ex_now (ex_form ''ein'' ''EUR'' (Some 7) ''ohne'' (2024, 3, 15))
          = Inr (ex_db\<lparr>entries := entries ex_db @ [e]\<rparr>) \<and>
        menge_eup e = Some 0 \<and> menge_gb e = Some 0 \<and>
        menge_tmb1 e = Some 0 \<and> menge_tmb2 e = Some 0) \<and>
   correction_valid ex_db 1 ex_now (ex_cform ''2024031001'' ''EUR'' (Some 7) (2024, 3, 15)) \<and>
   (\<exists>e. correction_entry ex_db 1 ex_now (ex_cform ''2024031001'' ''EUR'' (Some 7) (2024, 3, 15))
          = Inr (ex_db\<lparr>entries := entries ex_db @ [e]\<rparr>) \<and>
        menge_eup e = Some 0 \<and> menge_gb e = Some 0 \<and>
        menge_tmb1 e = Some 0 \<and> menge_tmb2 e = Some 0)"
proof -
  let ?f = "ex_form ''ein'' ''EUR'' (Some 7) ''ohne'' (2024, 3, 15)"
  let ?c = "ex_cform ''2024031001'' ''EUR'' (Some 7) (2024, 3, 15)"
  have t: "Some ''EUR'' \<notin> set (map Some categories)"
    by (simp add: categories_def)
  have d: "richtung_db_of (f_richtung ?f) = Some ''Eingang''"
    by (simp add: ex_form_def richtung_db_of_def upper_def upper_char_def)
  have v: "entry_valid ex_db 1 ex_now ?f"
    unfolding entry_valid_def using ex_reaches [of "''ein''" "''EUR''" 7 "''ohne''"] d by blast
  have ft: "f_typ ?f = Some ''EUR''" "c_typ ?c = Some ''EUR''"
    by (simp_all add: ex_form_def ex_cform_def)
  note cv = ex_correction_valid [of "''EUR''" 7 "(2024, 3, 15)"]
  from unknown_category_books_zero [OF t, of ex_db 1 ex_now ?f ?c] v ft cv
  show ?thesis using t by blast
qed














subsection \<open>Closure lock\<close>

lemma last_close_is_latest:
  assumes "last_close_of s pid = Some c" "c' \<in> set (partner_closures s pid)"
  shows "period_end c' \<le> period_end c"
  using first_desc_max [OF assms(1) [unfolded last_close_of_def] assms(2)] .

lemma not_locked_after_every_closure:
  assumes "\<not> locked (last_close_of s pid) d" "c \<in> set (partner_closures s pid)"
  shows "period_end c < d"
proof (cases "last_close_of s pid")
  case None
  then have "partner_closures s pid = []"
    by (simp add: last_close_of_def first_desc_None)
  with assms(2) show ?thesis by simp
next
  case (Some l)
  with assms(1) have "period_end l < d" by (simp add: locked_def)
  with last_close_is_latest [OF Some assms(2)] show ?thesis by simp
qed

text \<open>\<open>new_entry\<close> persists no entry dated on or before the \<open>period_end\<close> of a closure of the partner.\<close>

lemma new_entry_after_every_closure:
  assumes "new_entry s pid now form = Inr s'"
  shows "\<exists>e ud. entries s' = entries s @ [e] \<and> parse_datum now (f_datum form) = Some ud \<and>
    datum e = Some (combine ud (snd now)) \<and>
    (\<forall>c \<in> set (partner_closures s pid). period_end c < combine ud (snd now))"
proof -
  from new_entry_InrD [OF assms] obtain a ud q r
    where ud: "parse_datum now (f_datum form) = Some ud"
      and l: "\<not> locked (last_close_of s pid) (combine ud (snd now))"
      and s': "s' = s\<lparr>entries := entries s @ [new_entry_row s a now form ud q r]\<rparr>"
    by blast
  have "datum (new_entry_row s a now form ud q r) = Some (combine ud (snd now))"
    by (simp add: new_entry_row_def)
  moreover have "\<forall>c \<in> set (partner_closures s pid). period_end c < combine ud (snd now)"
    using not_locked_after_every_closure [OF l] by blast
  moreover from s' have "entries s' = entries s @ [new_entry_row s a now form ud q r]"
    by simp
  ultimately show ?thesis using ud by blast
qed

text \<open>
  \<open>correction_entry\<close> tests the lock on the date of the original entry, and persists the
  correction under the date of the form.
\<close>

lemma correction_checks_original_only:
  assumes "correction_entry s pid now form = Inr s'"
  shows "\<exists>corr ud original. entries s' = entries s @ [corr] \<and>
    parse_datum now (c_datum form) = Some ud \<and> datum corr = Some (combine ud (snd now)) \<and>
    find_original s pid (c_belegnummer form) = Some original \<and>
    (\<forall>c \<in> set (partner_closures s pid).
       \<exists>d. datum original = Some d \<and> period_end c < d)"
proof -
  from correction_InrD [OF assms] obtain a ud original q
    where ud: "parse_datum now (c_datum form) = Some ud"
      and o: "find_original s pid (c_belegnummer form) = Some original"
      and l: "original_locked (last_close_of s pid) original = Inr False"
      and s': "s' = s\<lparr>entries := entries s @ [correction_row s pid a now form ud original q]\<rparr>"
    by blast
  have "\<exists>d. datum original = Some d \<and> period_end c < d"
    if c: "c \<in> set (partner_closures s pid)" for c
  proof -
    from c have "last_close_of s pid \<noteq> None"
      by (auto simp add: last_close_of_def first_desc_None)
    then obtain lc where lc: "last_close_of s pid = Some lc" by blast
    with l obtain d where d: "datum original = Some d" "\<not> d \<le> period_end lc"
      by (cases "datum original") (simp_all add: original_locked_def)
    with last_close_is_latest [OF lc c] have "period_end c < d" by simp
    with d show ?thesis by blast
  qed
  moreover have "datum (correction_row s pid a now form ud original q) =
      Some (combine ud (snd now))"
    by (simp add: correction_row_def)
  moreover from s' have "entries s' =
      entries s @ [correction_row s pid a now form ud original q]"
    by simp
  ultimately show ?thesis using ud o by blast
qed

text \<open>
  C1 does not hold of \<open>correction_entry\<close>. The small store has a closure for January 2024
  and an original entry of 10 March. A correction against that entry under the date
  15 January is persisted, its timestamp before the closure's \<open>period_end\<close>, while
  \<open>new_entry\<close> refuses that date.
\<close>

theorem correction_persisted_inside_closed_month:
  "last_close_of ex_db 1 = Some ex_closure \<and>
   period_end ex_closure = ((2024, 1, 31), (23, 59, 59, 0)) \<and>
   (\<exists>corr. correction_entry ex_db 1 ex_now (ex_cform ''2024031001'' ''GB'' (Some 2) (2024, 1, 15))
        = Inr (ex_db\<lparr>entries := entries ex_db @ [corr]\<rparr>) \<and>
      richtung corr = Some ''Korrektur'' \<and>
      datum corr = Some ((2024, 1, 15), (12, 30, 0, 250000)) \<and>
      ((2024, 1, 15), (12, 30, 0, 250000)) \<le> period_end ex_closure) \<and>
   new_entry ex_db 1 ex_now (ex_form ''ein'' ''GB'' (Some 2) ''Korrektur'' (2024, 1, 15))
      = Inl ClosureLocked"
proof -
  let ?c = "ex_cform ''2024031001'' ''GB'' (Some 2) (2024, 1, 15)"
  let ?f = "ex_form ''ein'' ''GB'' (Some 2) ''Korrektur'' (2024, 1, 15)"
  let ?o = "ex_entry 4 ''2024031001'' ((2024, 3, 10), (9, 0, 0, 0)) ''Ausgang'' 0 5 0"
  let ?a = "\<lparr>a_id = 1, a_partner_id = Some 1\<rparr>"
  have b: "c_belegnummer ?c = ''2024031001''" by (simp add: ex_cform_def)
  have f: "c_belegnummer ?c \<noteq> []" "c_kommentar ?c \<noteq> []"
    "parse_datum ex_now (c_datum ?c) = Some (2024, 1, 15)" "c_menge ?c = Some 2"
    by (simp_all add: ex_cform_def parse_datum_def)
  have o: "find_original ex_db 1 (c_belegnummer ?c) = Some ?o"
    unfolding b by (rule ex_original)
  let ?corr = "correction_row ex_db 1 ?a ex_now ?c (2024, 1, 15) ?o 2"
  have r: "correction_entry ex_db 1 ex_now ?c = Inr (ex_db\<lparr>entries := entries ex_db @ [?corr]\<rparr>)"
    by (rule correction_success [OF ex_partner ex_accounts f(1,2,3) o ex_original_unlocked f(4)])
  have k: "richtung ?corr = Some ''Korrektur''"
    "datum ?corr = Some ((2024, 1, 15), (12, 30, 0, 250000))"
    by (simp_all add: correction_row_def combine_def ex_now_def)
  have pe: "period_end ex_closure = ((2024, 1, 31), (23, 59, 59, 0))"
    by (simp add: ex_closure_def)
  have le: "((2024, 1, 15), (12, 30, 0, 250000)) \<le> period_end ex_closure"
    by (simp add: ex_closure_def)
  have ud: "parse_datum ex_now (f_datum ?f) = Some (2024, 1, 15)"
    by (simp add: ex_form_def parse_datum_def)
  have l: "locked (last_close_of ex_db 1) (combine (2024, 1, 15) (snd ex_now))"
    unfolding ex_last_close by (simp add: locked_def combine_def ex_closure_def ex_now_def)
  have n: "new_entry ex_db 1 ex_now ?f = Inl ClosureLocked"
    by (rule new_entry_locked [OF ex_partner ex_accounts ud l])
  from r k le have "\<exists>corr. correction_entry ex_db 1 ex_now ?c
        = Inr (ex_db\<lparr>entries := entries ex_db @ [corr]\<rparr>) \<and>
      richtung corr = Some ''Korrektur'' \<and>
      datum corr = Some ((2024, 1, 15), (12, 30, 0, 250000)) \<and>
      ((2024, 1, 15), (12, 30, 0, 250000)) \<le> period_end ex_closure"
    by blast
  with ex_last_close pe n show ?thesis by blast
qed

section \<open>Properties of the Closure Manager\<close>

lemma days_in_month_pos: "Suc 0 \<le> days_in_month y m"
  by (simp add: days_in_month_def)

lemma month_range_ok:
  assumes "1 \<le> y" "y \<le> 9999" "1 \<le> m" "m \<le> 12" "\<not> (y = 9999 \<and> m = 12)"
  shows "month_range (y, m, d) =
    Inr (((y, m, 1), (0, 0, 0, 0)), ((y, m, days_in_month y m), (23, 59, 59, 0)))"
proof (cases "m = 12")
  case True
  with assms have "y < 9999" by simp
  with assms True show ?thesis
    by (simp add: month_range_def mk_datetime_def mk_date_def c_int_def days_in_month_def
        minus_second_def prev_day_def nat_add_distrib)
next
  case False
  with assms have "m < 12" by simp
  with assms show ?thesis
    by (simp add: month_range_def mk_datetime_def mk_date_def c_int_def days_in_month_pos
        minus_second_def prev_day_def nat_add_distrib)
qed

lemma month_range_last_month: "month_range (9999, 12, d) = Inl ValueError"
  by (simp add: month_range_def mk_datetime_def mk_date_def c_int_def days_in_month_def)

lemma close_month_duplicate:
  assumes "get_partner s pid = Some p"
    "\<exists>c \<in> set (closures s). mc_partner_id c = pid \<and> mc_year c = year \<and> mc_month c = month"
  shows "close_month s pid year month utcnow = Inl DuplicateClosure"
proof -
  from assms(2) have "find (\<lambda>c. mc_partner_id c = pid \<and> mc_year c = year \<and> mc_month c = month)
      (closures s) \<noteq> None"
    by (auto simp add: find_None_iff)
  with assms(1) show ?thesis by (simp add: close_month_def)
qed

lemma close_month_not_duplicate:
  assumes "get_partner s pid = Some p"
    "\<not> (\<exists>c \<in> set (closures s). mc_partner_id c = pid \<and> mc_year c = year \<and> mc_month c = month)"
  shows "close_month s pid year month utcnow =
     (case mk_date year month 1 of
        Inl e \<Rightarrow> Inl e
      | Inr period_ref \<Rightarrow>
          (case month_range period_ref of
             Inl e \<Rightarrow> Inl e
           | Inr (period_start, period_end') \<Rightarrow>
               (case calculate_saldo_and_sums s pid datetime_min period_end' of
                  None \<Rightarrow> Inl PartnerNotFound
                | Some result \<Rightarrow>
                    Inr (s\<lparr>closures := closures s @
                      [\<lparr>mc_id = next_id (map mc_id (closures s)),
                        mc_partner_id = pid, mc_year = year, mc_month = month,
                        saldo_eup = Some (eup (r_saldo_end result)),
                        saldo_gb = Some (gb (r_saldo_end result)),
                        saldo_tmb1 = Some (tmb1 (r_saldo_end result)),
                        saldo_tmb2 = Some (tmb2 (r_saldo_end result)),
                        period_end = period_end',
                        created_at = Some utcnow\<rparr>]\<rparr>))))"
proof -
  from assms(2) have "find (\<lambda>c. mc_partner_id c = pid \<and> mc_year c = year \<and> mc_month c = month)
      (closures s) = None"
    by (auto simp add: find_None_iff)
  with assms(1) show ?thesis
    by (simp add: close_month_def Let_def split: sum.splits option.splits prod.splits)
qed

lemma mk_date_first:
  assumes "1 \<le> year" "year \<le> 9999" "1 \<le> month" "month \<le> 12"
  shows "mk_date year month 1 = Inr (nat year, nat month, 1)"
  using assms days_in_month_pos [of "nat year" "nat month"] by (simp add: mk_date_def c_int_def)

lemma mk_date_out_of_range:
  assumes "\<not> (1 \<le> year \<and> year \<le> 9999 \<and> 1 \<le> month \<and> month \<le> 12)"
  shows "mk_date year month 1 =
    Inl (if c_int year \<and> c_int month then ValueError else OverflowError)"
  using assms by (auto simp add: mk_date_def c_int_def)

text \<open>
  A closure of a (year, month) that is closed already is refused. For every other month of
  the years 1 to 9999 but December 9999, \<open>close_month\<close> persists exactly one new closure
  whose \<open>period_end\<close> is 23:59:59 on the last day of that month and whose four balances are
  the \<open>saldo_end\<close> of the Balance Calculator run from \<open>datetime.min\<close> to that \<open>period_end\<close>.
\<close>

lemma close_month_calendar_month:
  assumes "get_partner s pid = Some p"
  shows
    "((\<exists>c \<in> set (closures s). mc_partner_id c = pid \<and> mc_year c = year \<and> mc_month c = month) \<longrightarrow>
        close_month s pid year month utcnow = Inl DuplicateClosure) \<and>
     (\<not> (\<exists>c \<in> set (closures s). mc_partner_id c = pid \<and> mc_year c = year \<and> mc_month c = month) \<and>
      1 \<le> year \<and> year \<le> 9999 \<and> 1 \<le> month \<and> month \<le> 12 \<and> \<not> (year = 9999 \<and> month = 12) \<longrightarrow>
        (\<exists>c r. close_month s pid year month utcnow = Inr (s\<lparr>closures := closures s @ [c]\<rparr>) \<and>
           mc_partner_id c = pid \<and> mc_year c = year \<and> mc_month c = month \<and>
           period_end c =
             ((nat year, nat month, days_in_month (nat year) (nat month)), (23, 59, 59, 0)) \<and>
           calculate_saldo_and_sums s pid datetime_min (period_end c) = Some r \<and>
           saldo_eup c = Some (eup (r_saldo_end r)) \<and> saldo_gb c = Some (gb (r_saldo_end r)) \<and>
           saldo_tmb1 c = Some (tmb1 (r_saldo_end r)) \<and>
           saldo_tmb2 c = Some (tmb2 (r_saldo_end r))))"
proof (intro conjI impI)
  assume "\<exists>c \<in> set (closures s). mc_partner_id c = pid \<and> mc_year c = year \<and> mc_month c = month"
  then show "close_month s pid year month utcnow = Inl DuplicateClosure"
    by (rule close_month_duplicate [OF assms])
next
  assume a: "\<not> (\<exists>c \<in> set (closures s). mc_partner_id c = pid \<and> mc_year c = year \<and> mc_month c = month) \<and>
      1 \<le> year \<and> year \<le> 9999 \<and> 1 \<le> month \<and> month \<le> 12 \<and> \<not> (year = 9999 \<and> month = 12)"
  let ?end = "((nat year, nat month, days_in_month (nat year) (nat month)), (23, 59, 59, 0))"
  from a have d: "mk_date year month 1 = Inr (nat year, nat month, 1)"
    by (simp add: mk_date_first)
  from a have "1 \<le> nat year" "nat year \<le> 9999" "1 \<le> nat month" "nat month \<le> 12"
    "\<not> (nat year = 9999 \<and> nat month = 12)"
    by auto
  then have m: "month_range (nat year, nat month, 1) =
      Inr (((nat year, nat month, 1), (0, 0, 0, 0)), ?end)"
    by (rule month_range_ok)
  from calculate_Some [OF assms, of datetime_min ?end]
  obtain r where r: "calculate_saldo_and_sums s pid datetime_min ?end = Some r" by blast
  let ?c = "\<lparr>mc_id = next_id (map mc_id (closures s)),
             mc_partner_id = pid, mc_year = year, mc_month = month,
             saldo_eup = Some (eup (r_saldo_end r)), saldo_gb = Some (gb (r_saldo_end r)),
             saldo_tmb1 = Some (tmb1 (r_saldo_end r)),
             saldo_tmb2 = Some (tmb2 (r_saldo_end r)),
             period_end = ?end, created_at = Some utcnow\<rparr>"
  from a have n: "\<not> (\<exists>c \<in> set (closures s). mc_partner_id c = pid \<and> mc_year c = year \<and> mc_month c = month)"
    by blast
  have "close_month s pid year month utcnow = Inr (s\<lparr>closures := closures s @ [?c]\<rparr>)"
    unfolding close_month_not_duplicate [OF assms n] d sum.case m prod.case r by simp
  moreover have "mc_partner_id ?c = pid" "mc_year ?c = year" "mc_month ?c = month"
    "period_end ?c = ?end"
    "saldo_eup ?c = Some (eup (r_saldo_end r))" "saldo_gb ?c = Some (gb (r_saldo_end r))"
    "saldo_tmb1 ?c = Some (tmb1 (r_saldo_end r))" "saldo_tmb2 ?c = Some (tmb2 (r_saldo_end r))"
    by simp_all
  moreover have "calculate_saldo_and_sums s pid datetime_min (period_end ?c) = Some r"
    using r by simp
  ultimately show "\<exists>c r. close_month s pid year month utcnow =
         Inr (s\<lparr>closures := closures s @ [c]\<rparr>) \<and>
       mc_partner_id c = pid \<and> mc_year c = year \<and> mc_month c = month \<and>
       period_end c =
         ((nat year, nat month, days_in_month (nat year) (nat month)), (23, 59, 59, 0)) \<and>
       calculate_saldo_and_sums s pid datetime_min (period_end c) = Some r \<and>
       saldo_eup c = Some (eup (r_saldo_end r)) \<and> saldo_gb c = Some (gb (r_saldo_end r)) \<and>
       saldo_tmb1 c = Some (tmb1 (r_saldo_end r)) \<and>
       saldo_tmb2 c = Some (tmb2 (r_saldo_end r))"
    by blast
qed

text \<open>
  A (year, month) that is no month of the calendar is refused by \<open>date(year, month, 1)\<close>,
  with \<open>OverflowError\<close> when a number does not fit a C integer and with \<open>ValueError\<close>
  otherwise.
\<close>

lemma close_month_no_calendar_month:
  assumes "get_partner s pid = Some p"
    "\<not> (\<exists>c \<in> set (closures s). mc_partner_id c = pid \<and> mc_year c = year \<and> mc_month c = month)"
    "\<not> (1 \<le> year \<and> year \<le> 9999 \<and> 1 \<le> month \<and> month \<le> 12)"
  shows "close_month s pid year month utcnow =
    Inl (if c_int year \<and> c_int month then ValueError else OverflowError)"
  unfolding close_month_not_duplicate [OF assms(1,2)] mk_date_out_of_range [OF assms(3)]
  by simp

text \<open>For December 9999 \<open>month_range\<close> raises, whatever the store holds.\<close>

lemma close_month_december_9999:
  assumes "get_partner s pid = Some p"
    "\<not> (\<exists>c \<in> set (closures s). mc_partner_id c = pid \<and> mc_year c = 9999 \<and> mc_month c = 12)"
  shows "close_month s pid 9999 12 utcnow = Inl ValueError"
proof -
  have d: "mk_date 9999 12 1 = Inr (9999, 12, 1)"
    by (simp add: mk_date_def c_int_def days_in_month_def)
  show ?thesis
    unfolding close_month_not_duplicate [OF assms] d sum.case month_range_last_month
    by simp
qed

lemma ex_calculate_february:
  "calculate_saldo_and_sums ex_db 1 datetime_min ((2024, 2, 29), (23, 59, 59, 0)) =
     Some \<lparr>r_entries =
             [ex_entry 3 ''2024020501'' ((2024, 2, 5), (9, 0, 0, 0)) ''Eingang'' 0 3 0,
              ex_entry 2 ''2024012001'' ((2024, 1, 20), (9, 0, 0, 0)) ''Ausgang'' 4 0 0,
              ex_entry 1 ''2024011001'' ((2024, 1, 10), (9, 0, 0, 0)) ''Eingang'' 10 0 0],
            r_saldo_start = \<lparr>eup = 0, gb = 0, tmb1 = 0, tmb2 = 0\<rparr>,
            r_movement = \<lparr>eup = 6, gb = 3, tmb1 = 0, tmb2 = 0\<rparr>,
            r_saldo_end = \<lparr>eup = 6, gb = 3, tmb1 = 0, tmb2 = 0\<rparr>,
            r_sums_eingang = \<lparr>eup = 10, gb = 3, tmb1 = 0, tmb2 = 0\<rparr>,
            r_sums_ausgang = \<lparr>eup = 4, gb = 0, tmb1 = 0, tmb2 = 0\<rparr>\<rparr>"
  by (simp add: calculate_saldo_and_sums_def ex_db_def ex_empty_def get_partner_def
      collect_partner_entries_def partner_accounts_def account_entries_def ex_entry_def
      get_last_closure_before_def partner_closures_def ex_closure_def seed_of_def or0_def
      loop_body_def me_of_def mult_of_def add_scaled_def add_quad_def quad0_def
      sort_newest_first_def sort_key_of_def datetime_min_def fadd_def fmul_def fl_exact)

lemma close_month_calendar_month_example:
  "(\<exists>c \<in> set (closures ex_db). mc_partner_id c = 1 \<and> mc_year c = 2024 \<and> mc_month c = 1) \<and>
   close_month ex_db 1 2024 1 ex_now = Inl DuplicateClosure \<and>
   \<not> (\<exists>c \<in> set (closures ex_db). mc_partner_id c = 1 \<and> mc_year c = 2024 \<and> mc_month c = 2) \<and>
   (\<exists>c. close_month ex_db 1 2024 2 ex_now = Inr (ex_db\<lparr>closures := closures ex_db @ [c]\<rparr>) \<and>
        period_end c = ((2024, 2, 29), (23, 59, 59, 0)) \<and>
        saldo_eup c = Some 6 \<and> saldo_gb c = Some 3 \<and>
        saldo_tmb1 c = Some 0 \<and> saldo_tmb2 c = Some 0)"
proof -
  have c1: "\<exists>c \<in> set (closures ex_db). mc_partner_id c = 1 \<and> mc_year c = 2024 \<and> mc_month c = 1"
    by (simp add: ex_db_def ex_empty_def ex_closure_def)
  have c2: "\<not> (\<exists>c \<in> set (closures ex_db). mc_partner_id c = 1 \<and> mc_year c = 2024 \<and> mc_month c = 2)"
    by (simp add: ex_db_def ex_empty_def ex_closure_def)
  from close_month_calendar_month [OF ex_partner, of 2024 1 ex_now] c1
  have d: "close_month ex_db 1 2024 1 ex_now = Inl DuplicateClosure" by blast
  have "(1::int) \<le> 2024 \<and> (2024::int) \<le> 9999 \<and> (1::int) \<le> 2 \<and> (2::int) \<le> 12 \<and>
      \<not> ((2024::int) = 9999 \<and> (2::int) = 12)"
    by simp
  with close_month_calendar_month [OF ex_partner, of 2024 2 ex_now] c2
  obtain c r where c: "close_month ex_db 1 2024 2 ex_now =
        Inr (ex_db\<lparr>closures := closures ex_db @ [c]\<rparr>)"
    and pe: "period_end c = ((nat 2024, nat 2, days_in_month (nat 2024) (nat 2)), (23, 59, 59, 0))"
    and r: "calculate_saldo_and_sums ex_db 1 datetime_min (period_end c) = Some r"
    and sal: "saldo_eup c = Some (eup (r_saldo_end r))" "saldo_gb c = Some (gb (r_saldo_end r))"
      "saldo_tmb1 c = Some (tmb1 (r_saldo_end r))" "saldo_tmb2 c = Some (tmb2 (r_saldo_end r))"
    by blast
  have pe': "period_end c = ((2024, 2, 29), (23, 59, 59, 0))"
    unfolding pe by (simp add: days_in_month_def is_leap_def)
  from r have "r_saldo_end r = \<lparr>eup = 6, gb = 3, tmb1 = 0, tmb2 = 0\<rparr>"
    unfolding pe' ex_calculate_february by auto
  with sal have "saldo_eup c = Some 6" "saldo_gb c = Some 3"
    "saldo_tmb1 c = Some 0" "saldo_tmb2 c = Some 0"
    by simp_all
  with c pe' have "\<exists>c. close_month ex_db 1 2024 2 ex_now =
        Inr (ex_db\<lparr>closures := closures ex_db @ [c]\<rparr>) \<and>
        period_end c = ((2024, 2, 29), (23, 59, 59, 0)) \<and>
        saldo_eup c = Some 6 \<and> saldo_gb c = Some 3 \<and>
        saldo_tmb1 c = Some 0 \<and> saldo_tmb2 c = Some 0"
    by blast
  with c1 d c2 show ?thesis by blast
qed

text \<open>
  C3 does not hold of the last month of the calendar. The small store has no closure for
  December 9999, the date 1 December 9999 exists, and so does the final second of that
  month; yet \<open>month_range\<close> raises on \<open>datetime(10000, 1, 1)\<close>, and \<open>close_month\<close> with it,
  while it returns the final second of November 9999.
\<close>

theorem close_month_fails_for_december_9999:
  "get_partner ex_db 1 = Some \<lparr>p_id = 1, p_name = ''P''\<rparr> \<and>
   find (\<lambda>c. mc_partner_id c = 1 \<and> mc_year c = 9999 \<and> mc_month c = 12) (closures ex_db) = None \<and>
   mk_date 9999 12 1 = Inr (9999, 12, 1) \<and>
   valid_datetime ((9999, 12, 31), (23, 59, 59, 0)) \<and>
   month_range (9999, 12, 1) = Inl ValueError \<and>
   close_month ex_db 1 9999 12 ex_now = Inl ValueError \<and>
   month_range (9999, 11, 1) =
     Inr (((9999, 11, 1), (0, 0, 0, 0)), ((9999, 11, 30), (23, 59, 59, 0)))"
proof -
  have n: "\<not> (\<exists>c \<in> set (closures ex_db). mc_partner_id c = 1 \<and> mc_year c = 9999 \<and> mc_month c = 12)"
    by (simp add: ex_db_def ex_empty_def ex_closure_def)
  have f: "find (\<lambda>c. mc_partner_id c = 1 \<and> mc_year c = 9999 \<and> mc_month c = 12) (closures ex_db) = None"
    by (simp add: ex_db_def ex_empty_def ex_closure_def)
  have d: "mk_date 9999 12 1 = Inr (9999, 12, 1)"
    by (simp add: mk_date_def c_int_def days_in_month_def)
  have v: "valid_datetime ((9999, 12, 31), (23, 59, 59, 0))"
    by (simp add: valid_datetime_def valid_date_def valid_time_def days_in_month_def)
  have c: "close_month ex_db 1 9999 12 ex_now = Inl ValueError"
    by (rule close_month_december_9999 [OF ex_partner n])
  have "month_range (9999, 11, 1) =
      Inr (((9999, 11, 1), (0, 0, 0, 0)), ((9999, 11, days_in_month 9999 11), (23, 59, 59, 0)))"
    by (rule month_range_ok) simp_all
  then have m: "month_range (9999, 11, 1) =
      Inr (((9999, 11, 1), (0, 0, 0, 0)), ((9999, 11, 30), (23, 59, 59, 0)))"
    by (simp add: days_in_month_def)
  from ex_partner f d v month_range_last_month [of 1] c m show ?thesis by blast
qed

end
